theory Spec2Isabelle
  imports Complex_Main
begin

section \<open>Text\<close>

text \<open>
  A Python \<^verbatim>\<open>str\<close> is modelled as a \<^typ>\<open>string\<close> whose characters are the code
  points U+0000 to U+00FF (ASCII and the Latin-1 supplement, which holds every letter of
  the vocabulary tables below).  The character classes are those of CPython on that range:
  \<^verbatim>\<open>str.isspace\<close> (which is also the class \<^verbatim>\<open>\s\<close> of \<^verbatim>\<open>re\<close>), the class
  \<^verbatim>\<open>\w\<close> (alphanumeric or underscore), the class \<^verbatim>\<open>\d\<close> (decimal digits)
  and the case mapping of \<^verbatim>\<open>str.lower\<close>.
\<close>

definition is_space :: "char \<Rightarrow> bool" where
  "is_space c = (let n = (of_char c :: nat) in
     (9 \<le> n \<and> n \<le> 13) \<or> (28 \<le> n \<and> n \<le> 32) \<or> n = 133 \<or> n = 160)"

definition is_digit :: "char \<Rightarrow> bool" where
  "is_digit c = (let n = (of_char c :: nat) in 48 \<le> n \<and> n \<le> 57)"

definition is_word :: "char \<Rightarrow> bool" where
  "is_word c = (let n = (of_char c :: nat) in
     (48 \<le> n \<and> n \<le> 57) \<or> (65 \<le> n \<and> n \<le> 90) \<or> n = 95 \<or> (97 \<le> n \<and> n \<le> 122)
     \<or> n = 170 \<or> n = 178 \<or> n = 179 \<or> n = 181 \<or> n = 185 \<or> n = 186
     \<or> (188 \<le> n \<and> n \<le> 190) \<or> (192 \<le> n \<and> n \<le> 214)
     \<or> (216 \<le> n \<and> n \<le> 246) \<or> (248 \<le> n \<and> n \<le> 255))"

definition upper_letters :: string where
  "upper_letters = ''ABCDEFGHIJKLMNOPQRSTUVWXYZ'' @
     [CHR 0xC0, CHR 0xC1, CHR 0xC2, CHR 0xC3, CHR 0xC4, CHR 0xC5, CHR 0xC6, CHR 0xC7,
      CHR 0xC8, CHR 0xC9, CHR 0xCA, CHR 0xCB, CHR 0xCC, CHR 0xCD, CHR 0xCE, CHR 0xCF,
      CHR 0xD0, CHR 0xD1, CHR 0xD2, CHR 0xD3, CHR 0xD4, CHR 0xD5, CHR 0xD6, CHR 0xD8,
      CHR 0xD9, CHR 0xDA, CHR 0xDB, CHR 0xDC, CHR 0xDD, CHR 0xDE]"

definition lower_letters :: string where
  "lower_letters = ''abcdefghijklmnopqrstuvwxyz'' @
     [CHR 0xE0, CHR 0xE1, CHR 0xE2, CHR 0xE3, CHR 0xE4, CHR 0xE5, CHR 0xE6, CHR 0xE7,
      CHR 0xE8, CHR 0xE9, CHR 0xEA, CHR 0xEB, CHR 0xEC, CHR 0xED, CHR 0xEE, CHR 0xEF,
      CHR 0xF0, CHR 0xF1, CHR 0xF2, CHR 0xF3, CHR 0xF4, CHR 0xF5, CHR 0xF6, CHR 0xF8,
      CHR 0xF9, CHR 0xFA, CHR 0xFB, CHR 0xFC, CHR 0xFD, CHR 0xFE]"

definition lower_char :: "char \<Rightarrow> char" where
  "lower_char c = (case map_of (zip upper_letters lower_letters) c of None \<Rightarrow> c | Some d \<Rightarrow> d)"

definition upper_char :: "char \<Rightarrow> char" where
  "upper_char c = (case map_of (zip lower_letters upper_letters) c of None \<Rightarrow> c | Some d \<Rightarrow> d)"

definition lower :: "string \<Rightarrow> string" where
  "lower s = map lower_char s"

text \<open>
  \<^verbatim>\<open>str.capitalize\<close>: the first character in upper case, the rest in lower case.
  The capital of U+00DF is the two characters \<^verbatim>\<open>Ss\<close>.  The capitals of U+00B5 and
  U+00FF lie outside the modelled range; these two characters are kept as they are.
\<close>

definition capitalize :: "string \<Rightarrow> string" where
  "capitalize s =
     (case s of
        [] \<Rightarrow> []
      | c # cs \<Rightarrow> (if c = CHR 0xDF then ''Ss'' else [upper_char c]) @ lower cs)"

definition strip :: "string \<Rightarrow> string" where
  "strip s = rev (dropWhile is_space (rev (dropWhile is_space s)))"

text \<open>\<^verbatim>\<open>str.split()\<close> without arguments: the maximal runs of non-space characters.\<close>

fun split_words :: "string \<Rightarrow> string \<Rightarrow> string list" where
  "split_words cur [] = (if cur = [] then [] else [cur])"
| "split_words cur (c # cs) =
     (if is_space c then (if cur = [] then split_words [] cs else cur # split_words [] cs)
      else split_words (cur @ [c]) cs)"

definition split :: "string \<Rightarrow> string list" where
  "split s = split_words [] s"

text \<open>\<^verbatim>\<open>str.split(sep)\<close> for a separator of one character.\<close>

fun split_on :: "char \<Rightarrow> string \<Rightarrow> string \<Rightarrow> string list" where
  "split_on sep cur [] = [cur]"
| "split_on sep cur (c # cs) =
     (if c = sep then cur # split_on sep [] cs else split_on sep (cur @ [c]) cs)"

text \<open>\<^verbatim>\<open>str.startswith\<close> and the substring test \<^verbatim>\<open>sub in s\<close>.\<close>

fun startswith :: "string \<Rightarrow> string \<Rightarrow> bool" where
  "startswith s [] = True"
| "startswith [] (p # ps) = False"
| "startswith (c # cs) (p # ps) = (c = p \<and> startswith cs ps)"

fun contains :: "string \<Rightarrow> string \<Rightarrow> bool" where
  "contains [] sub = (sub = [])"
| "contains (c # cs) sub = (startswith (c # cs) sub \<or> contains cs sub)"

text \<open>
  \<^verbatim>\<open>s.replace(old, "")\<close> for a non-empty \<open>old\<close>: the occurrences of \<open>old\<close> are
  removed from the left; \<open>skip\<close> counts the characters of an occurrence still to drop.
\<close>

fun remove_all :: "string \<Rightarrow> nat \<Rightarrow> string \<Rightarrow> string" where
  "remove_all old skip [] = []"
| "remove_all old skip (c # cs) =
     (if 0 < skip then remove_all old (skip - 1) cs
      else if startswith (c # cs) old then remove_all old (length old - 1) cs
      else c # remove_all old 0 cs)"

text \<open>\<^verbatim>\<open>sep.join(xs)\<close>, \<^verbatim>\<open>s.find(c)\<close> and \<^verbatim>\<open>s.rfind(c)\<close> for a character.\<close>

fun join :: "string \<Rightarrow> string list \<Rightarrow> string" where
  "join sep [] = []"
| "join sep [x] = x"
| "join sep (x # y # ys) = x @ sep @ join sep (y # ys)"

fun find_index :: "char \<Rightarrow> string \<Rightarrow> nat option" where
  "find_index c [] = None"
| "find_index c (d # ds) =
     (if d = c then Some 0 else (case find_index c ds of None \<Rightarrow> None | Some i \<Rightarrow> Some (Suc i)))"

fun rfind_index :: "char \<Rightarrow> string \<Rightarrow> nat option" where
  "rfind_index c [] = None"
| "rfind_index c (d # ds) =
     (case rfind_index c ds of
        Some i \<Rightarrow> Some (Suc i)
      | None \<Rightarrow> if d = c then Some 0 else None)"

text \<open>\<^verbatim>\<open>int(s)\<close> for a string of decimal digits.\<close>

definition int_of_digits :: "string \<Rightarrow> nat" where
  "int_of_digits s = foldl (\<lambda>n c. 10 * n + (of_char c - 48)) 0 s"

section \<open>Regular expressions\<close>

text \<open>
  The patterns of the source are built from literals, \<^verbatim>\<open>\b\<close>, \<^verbatim>\<open>\s+\<close>,
  \<^verbatim>\<open>\s*\<close>, \<^verbatim>\<open>(\d+)\<close>, alternatives and one negative lookahead.  A matcher
  takes the character before the current position (\<open>None\<close> at the start of the text) and
  the rest of the text, and returns the value of the first successful match in the
  backtracking order of \<^verbatim>\<open>re\<close>, or \<open>None\<close>.  Each construct takes the matcher
  of what follows it in the pattern.
\<close>

type_synonym 'a matcher = "char option \<Rightarrow> string \<Rightarrow> 'a option"

definition re_end :: "'a \<Rightarrow> 'a matcher" where
  "re_end x prev s = Some x"

definition word_before :: "char option \<Rightarrow> bool" where
  "word_before prev = (case prev of None \<Rightarrow> False | Some c \<Rightarrow> is_word c)"

definition word_after :: "string \<Rightarrow> bool" where
  "word_after s = (case s of [] \<Rightarrow> False | c # _ \<Rightarrow> is_word c)"

definition re_b :: "'a matcher \<Rightarrow> 'a matcher" where
  "re_b k prev s = (if word_before prev \<noteq> word_after s then k prev s else None)"

text \<open>A literal; with \<^verbatim>\<open>re.IGNORECASE\<close> the characters are compared in lower case.\<close>

fun re_lit :: "bool \<Rightarrow> string \<Rightarrow> 'a matcher \<Rightarrow> 'a matcher" where
  "re_lit ic [] k prev s = k prev s"
| "re_lit ic (p # ps) k prev [] = None"
| "re_lit ic (p # ps) k prev (c # cs) =
     (if (if ic then lower_char c = lower_char p else c = p)
      then re_lit ic ps k (Some c) cs else None)"

text \<open>
  A greedy repetition of a character class, \<^verbatim>\<open>[...]*\<close> and \<^verbatim>\<open>[...]+\<close>: what
  follows receives the characters consumed, and fewer characters are tried when it fails.
\<close>

fun re_many0 :: "(char \<Rightarrow> bool) \<Rightarrow> string \<Rightarrow> (string \<Rightarrow> 'a matcher) \<Rightarrow> 'a matcher" where
  "re_many0 P acc kf prev [] = kf acc prev []"
| "re_many0 P acc kf prev (c # cs) =
     (if P c
      then (case re_many0 P (acc @ [c]) kf (Some c) cs of
              Some r \<Rightarrow> Some r
            | None \<Rightarrow> kf acc prev (c # cs))
      else kf acc prev (c # cs))"

definition re_many1 :: "(char \<Rightarrow> bool) \<Rightarrow> (string \<Rightarrow> 'a matcher) \<Rightarrow> 'a matcher" where
  "re_many1 P kf prev s =
     (case s of [] \<Rightarrow> None | c # cs \<Rightarrow> if P c then re_many0 P [c] kf (Some c) cs else None)"

text \<open>\<^verbatim>\<open>\s*\<close>, \<^verbatim>\<open>\s+\<close> and the group \<^verbatim>\<open>(\d+)\<close>.\<close>

definition re_space0 :: "'a matcher \<Rightarrow> 'a matcher" where
  "re_space0 k = re_many0 is_space [] (\<lambda>_. k)"

definition re_space1 :: "'a matcher \<Rightarrow> 'a matcher" where
  "re_space1 k = re_many1 is_space (\<lambda>_. k)"

definition re_digits1 :: "(string \<Rightarrow> 'a matcher) \<Rightarrow> 'a matcher" where
  "re_digits1 kf = re_many1 is_digit kf"

definition re_alt :: "'a matcher \<Rightarrow> 'a matcher \<Rightarrow> 'a matcher" where
  "re_alt m1 m2 prev s = (case m1 prev s of Some r \<Rightarrow> Some r | None \<Rightarrow> m2 prev s)"

text \<open>Alternatives \<^verbatim>\<open>(a|b|...)\<close>, tried from the left.\<close>

fun re_alts :: "'a matcher list \<Rightarrow> 'a matcher" where
  "re_alts [] prev s = None"
| "re_alts (m # ms) prev s = re_alt m (re_alts ms) prev s"

definition re_not_ahead :: "unit matcher \<Rightarrow> 'a matcher \<Rightarrow> 'a matcher" where
  "re_not_ahead la k prev s = (if la prev s = None then k prev s else None)"

text \<open>\<^verbatim>\<open>re.search\<close>: the first position, from the left, where the pattern matches.\<close>

fun re_scan :: "'a matcher \<Rightarrow> 'a matcher" where
  "re_scan m prev [] = m prev []"
| "re_scan m prev (c # cs) =
     (case m prev (c # cs) of Some r \<Rightarrow> Some r | None \<Rightarrow> re_scan m (Some c) cs)"

definition re_search :: "'a matcher \<Rightarrow> string \<Rightarrow> 'a option" where
  "re_search m s = re_scan m None s"

text \<open>\<^verbatim>\<open>re.search(rf'\b{re.escape(w)}\b', s)\<close> as a truth value.\<close>

definition search_word :: "string \<Rightarrow> string \<Rightarrow> bool" where
  "search_word w s = (re_search (re_b (re_lit False w (re_b (re_end ())))) s \<noteq> None)"

section \<open>Text analyzer\<close>

text \<open>\<^verbatim>\<open>app/utils/text.py\<close>: the vocabulary tables and \<^verbatim>\<open>analyze_text\<close>.\<close>

record TextAnalysis =
  has_negation :: bool
  is_simple_confirmation :: bool
  is_simple_rejection :: bool
  cleaned_text :: string

definition NEGATION_PATTERNS :: "unit matcher list" where
  "NEGATION_PATTERNS =
     [re_b (re_lit True ''non'' (re_space1 (re_end ()))),
      re_b (re_lit True ''niente'' (re_space1 (re_end ()))),
      re_b (re_lit True ''no'' (re_b
        (re_not_ahead (re_space1 (re_lit True ''grazie'' (re_end ()))) (re_end ())))),
      re_b (re_lit True ''mai'' (re_b (re_end ()))),
      re_b (re_lit True ''senza'' (re_space1 (re_end ()))),
      re_b (re_lit True ''non'' (re_b (re_end ())))]"

definition SIMPLE_CONFIRMATIONS :: "string list" where
  "SIMPLE_CONFIRMATIONS =
     [''ok'', ''okay'', ''s'' @ [CHR 0xEC], ''si'', ''va bene'', ''perfetto'', ''grazie'',
      ''d'' @ [CHR 0x27] @ ''accordo'', ''capito'', ''certo'', ''esatto'', ''giusto'',
      ''benissimo'', ''ottimo'', ''fantastico'', ''eccellente'']"

definition SIMPLE_REJECTIONS :: "string list" where
  "SIMPLE_REJECTIONS =
     [''no'', ''no grazie'', ''niente'', ''lascia stare'', ''annulla'',
      ''non importa'', ''non serve'', ''lascia perdere'', ''basta cos'' @ [CHR 0xEC]]"

definition action_indicators :: "string list" where
  "action_indicators =
     [''metti'', ''ferma'', ''cambia'', ''vai'', ''portami'', ''voglio'', ''cerco'', ''trova'']"

definition detect_negation :: "string \<Rightarrow> bool" where
  "detect_negation text = list_ex (\<lambda>pattern. re_search pattern text \<noteq> None) NEGATION_PATTERNS"

text \<open>
  \<^verbatim>\<open>re.sub(r'[...]+', ' ', s)\<close>: every maximal run of characters of a class is
  replaced by one space.
\<close>

fun sub_runs :: "(char \<Rightarrow> bool) \<Rightarrow> bool \<Rightarrow> string \<Rightarrow> string" where
  "sub_runs P in_run [] = []"
| "sub_runs P in_run (c # cs) =
     (if P c then (if in_run then sub_runs P True cs else CHR '' '' # sub_runs P True cs)
      else c # sub_runs P False cs)"

definition analyze_text :: "string \<Rightarrow> TextAnalysis" where
  "analyze_text text =
     (let text_lower = strip (lower text);
          words = split text_lower;
          has_neg = detect_negation text_lower;
          confirmation =
            (if length words \<le> 3 \<and> \<not> has_neg
             then list_ex (\<lambda>conf. search_word conf text_lower) SIMPLE_CONFIRMATIONS
             else False);
          confirmation' =
            (if confirmation
             then \<not> list_ex (\<lambda>action. contains text_lower action) action_indicators
             else confirmation);
          rejection =
            (if length words \<le> 5
             then list_ex (\<lambda>rej. search_word rej text_lower) SIMPLE_REJECTIONS
             else False);
          cleaned = strip (sub_runs (\<lambda>c. c \<in> set ''!?.,;:'') False text);
          cleaned' = sub_runs is_space False cleaned
      in \<lparr> has_negation = has_neg, is_simple_confirmation = confirmation',
           is_simple_rejection = rejection, cleaned_text = cleaned' \<rparr>)"

text \<open>\<^verbatim>\<open>is_greeting\<close> and \<^verbatim>\<open>is_help_request\<close>.\<close>

definition greetings :: "string list" where
  "greetings =
     [''ciao'', ''salve'', ''buongiorno'', ''buonasera'', ''buonanotte'',
      ''hey'', ''ehi'', ''hello'', ''hi'']"

definition is_greeting :: "string \<Rightarrow> bool" where
  "is_greeting text =
     (let text_lower = strip (lower text);
          words = split text_lower
      in length words \<le> 3 \<and> list_ex (\<lambda>g. contains text_lower g) greetings)"

definition help_patterns :: "string list" where
  "help_patterns =
     [''aiuto'', ''help'', ''cosa puoi fare'', ''cosa sai fare'',
      ''come funziona'', ''che puoi fare'', ''cosa fai'',
      ''quali sono le opzioni'', ''menu'', ''comandi'']"

definition is_help_request :: "string \<Rightarrow> bool" where
  "is_help_request text = list_ex (\<lambda>p. contains (lower text) p) help_patterns"


section \<open>Intent classifier: sanitizing the need\<close>

text \<open>
  \<^verbatim>\<open>app/llm/intent_classifier.py\<close>, \<^verbatim>\<open>IntentClassifier._clean_need_value\<close>.
  The source keeps the valid needs in a Python \<^verbatim>\<open>set\<close> and iterates over it; the
  iteration order of a set of strings is not fixed by the language, so the order is a
  parameter of the model (a list holding the valid needs).  \<^verbatim>\<open>str.split("|")\<close>
  returns at least one element, so the first case of the match on it is never taken.
\<close>

definition valid_needs :: "string list" where
  "valid_needs = [''Fame'', ''Sete'', ''Malessere'', ''Divertimento'', ''Shopping'']"

definition clean_need_value :: "string list \<Rightarrow> string \<Rightarrow> string option" where
  "clean_need_value order need_str =
     (if need_str \<in> set valid_needs then Some need_str
      else
        (case find (\<lambda>valid. contains (lower need_str) (lower valid)) order of
           Some valid \<Rightarrow> Some valid
         | None \<Rightarrow>
             (if contains need_str ''|''
              then
                (case split_on (CHR ''|'') [] need_str of
                   [] \<Rightarrow> None
                 | first0 # _ \<Rightarrow>
                     (let first = strip first0
                      in if first \<in> set valid_needs then Some first
                         else find (\<lambda>valid. contains (lower first) (lower valid)) order))
              else None)))"

section \<open>Values of the LLM's answers\<close>

text \<open>
  The classifier parses the text returned by the LLM with \<^verbatim>\<open>json.loads\<close> and does not
  validate what it reads, so the values it handles are arbitrary JSON values.  A Python
  \<^verbatim>\<open>float\<close> is the rational number a double denotes, an infinity or a NaN;
  \<^verbatim>\<open>None\<close> is \<open>JNull\<close>; a dictionary keeps its items in a list.
\<close>

datatype pyfloat = Finite rat | PosInf | NegInf | NaN

datatype json =
    JNull
  | JBool bool
  | JInt int
  | JFloat pyfloat
  | JStr string
  | JArr "json list"
  | JObj "(string \<times> json) list"

datatype exn =
    JSONDecodeError
  | AttributeError
  | TypeError
  | ValueError
  | OverflowError
  | IndexError
  | KeyError
  | UnboundLocalError
  | OtherError string

text \<open>Sequencing of steps that may raise.\<close>

definition and_then :: "exn + 'a \<Rightarrow> ('a \<Rightarrow> exn + 'b) \<Rightarrow> exn + 'b" where
  "and_then m f = (case m of Inl e \<Rightarrow> Inl e | Inr x \<Rightarrow> f x)"

text \<open>The truth value of a Python object, as \<^verbatim>\<open>if x:\<close> tests it.\<close>

fun truthy :: "json \<Rightarrow> bool" where
  "truthy JNull = False"
| "truthy (JBool b) = b"
| "truthy (JInt i) = (i \<noteq> 0)"
| "truthy (JFloat f) = (f \<noteq> Finite 0)"
| "truthy (JStr s) = (s \<noteq> [])"
| "truthy (JArr xs) = (xs \<noteq> [])"
| "truthy (JObj kvs) = (kvs \<noteq> [])"

text \<open>\<^verbatim>\<open>d.get(key, default)\<close>; on a value that is no dictionary it raises.\<close>

fun dict_get :: "json \<Rightarrow> string \<Rightarrow> json \<Rightarrow> exn + json" where
  "dict_get (JObj kvs) key dflt =
     Inr (case map_of kvs key of None \<Rightarrow> dflt | Some v \<Rightarrow> v)"
| "dict_get _ key dflt = Inl AttributeError"

text \<open>
  The comparison \<^verbatim>\<open>x >= t\<close> of a Python object with a finite float: numbers and
  booleans compare by value, a NaN compares false, anything else raises \<^verbatim>\<open>TypeError\<close>.
\<close>

fun float_ge :: "pyfloat \<Rightarrow> rat \<Rightarrow> bool" where
  "float_ge (Finite r) t = (t \<le> r)"
| "float_ge PosInf t = True"
| "float_ge NegInf t = False"
| "float_ge NaN t = False"

fun py_ge :: "json \<Rightarrow> rat \<Rightarrow> exn + bool" where
  "py_ge (JBool b) t = Inr (t \<le> (if b then 1 else 0))"
| "py_ge (JInt i) t = Inr (t \<le> of_int i)"
| "py_ge (JFloat f) t = Inr (float_ge f t)"
| "py_ge _ t = Inl TypeError"

text \<open>
  The value of a Python number or boolean, and the order of two such values.  Python
  compares an integer and a float by their exact values; a NaN is below and above nothing.
\<close>

fun num_of :: "json \<Rightarrow> pyfloat option" where
  "num_of (JBool b) = Some (Finite (if b then 1 else 0))"
| "num_of (JInt i) = Some (Finite (of_int i))"
| "num_of (JFloat f) = Some f"
| "num_of _ = None"

definition float_lt :: "pyfloat \<Rightarrow> pyfloat \<Rightarrow> bool" where
  "float_lt a b =
     (case (a, b) of
        (Finite x, Finite y) \<Rightarrow> x < y
      | (Finite x, PosInf) \<Rightarrow> True
      | (NegInf, Finite y) \<Rightarrow> True
      | (NegInf, PosInf) \<Rightarrow> True
      | _ \<Rightarrow> False)"

text \<open>
  \<^verbatim>\<open>min(k, v)\<close> and \<^verbatim>\<open>max(k, v)\<close> for an integer \<open>k\<close>: the built-ins keep
  their first argument unless the second is smaller (greater), and the comparison of
  anything but a number with an integer raises \<^verbatim>\<open>TypeError\<close>.  \<^verbatim>\<open>v + d\<close> for an
  integer \<open>d\<close>: exact on integers and booleans, on a float the exact sum rounded to a
  double by \<open>rnd\<close>, the rounding of the machine, which is taken as given;
  \<^verbatim>\<open>TypeError\<close> on anything else.
\<close>

definition py_min_int :: "int \<Rightarrow> json \<Rightarrow> exn + json" where
  "py_min_int k v =
     (case num_of v of
        None \<Rightarrow> Inl TypeError
      | Some x \<Rightarrow> Inr (if float_lt x (Finite (of_int k)) then v else JInt k))"

definition py_max_int :: "int \<Rightarrow> json \<Rightarrow> exn + json" where
  "py_max_int k v =
     (case num_of v of
        None \<Rightarrow> Inl TypeError
      | Some x \<Rightarrow> Inr (if float_lt (Finite (of_int k)) x then v else JInt k))"

fun py_add_int :: "(rat \<Rightarrow> pyfloat) \<Rightarrow> json \<Rightarrow> int \<Rightarrow> exn + json" where
  "py_add_int rnd (JBool b) d = Inr (JInt ((if b then 1 else 0) + d))"
| "py_add_int rnd (JInt i) d = Inr (JInt (i + d))"
| "py_add_int rnd (JFloat (Finite r)) d = Inr (JFloat (rnd (r + of_int d)))"
| "py_add_int rnd (JFloat f) d = Inr (JFloat f)"
| "py_add_int rnd _ d = Inl TypeError"

text \<open>
  The float literals of the source, as the doubles they denote: \<^verbatim>\<open>0.7\<close>,
  \<^verbatim>\<open>0.65\<close>, \<^verbatim>\<open>0.6\<close>, \<^verbatim>\<open>0.5\<close> and \<^verbatim>\<open>0.8\<close>.
\<close>

definition float_0_7 :: rat where
  "float_0_7 = 3152519739159347 / 4503599627370496"

definition float_0_65 :: rat where
  "float_0_65 = 5854679515581645 / 9007199254740992"

definition float_0_6 :: rat where
  "float_0_6 = 5404319552844595 / 9007199254740992"

definition float_0_5 :: rat where
  "float_0_5 = 1 / 2"

definition float_0_8 :: rat where
  "float_0_8 = 3602879701896397 / 4503599627370496"

section \<open>Session state and session store\<close>

text \<open>
  \<^verbatim>\<open>app/schemas.py\<close>: \<^verbatim>\<open>SessionMode\<close>, \<^verbatim>\<open>UIOption\<close> and
  \<^verbatim>\<open>SessionState\<close>.  The fields \<^verbatim>\<open>taxi_x\<close>, \<^verbatim>\<open>taxi_y\<close>,
  \<^verbatim>\<open>history\<close> and \<^verbatim>\<open>ride_started_at\<close> are read by none of the modelled operations
  and are left out.  The model does not validate assignments, so \<^verbatim>\<open>music_volume\<close>
  and \<^verbatim>\<open>driving_policy\<close> hold whatever Python value is assigned to them (the volume
  operations assign the first, the handlers of the simulator's messages the second).  An active option
  (\<^verbatim>\<open>last_ui_options\<close>) is a dictionary from strings to strings, which need not
  have the keys \<^verbatim>\<open>id\<close> and \<^verbatim>\<open>label\<close>.
\<close>

type_synonym option_dict = "(string \<times> string) list"

datatype SessionMode = PRE_RIDE | NORMAL

record UIOption =
  opt_id :: string
  opt_label :: string

record SessionState =
  session_id :: string
  user_id :: "string option"
  ride_id :: "string option"
  city :: "string option"
  pending_question :: "string option"
  last_poi_suggestions :: "string list"
  last_ui_options :: "option_dict list"
  mode :: SessionMode
  music_playing :: bool
  music_genre :: "string option"
  music_paused :: bool
  music_volume :: json
  is_ride_active :: bool
  current_destination_name :: "string option"
  current_destination_id :: "string option"
  current_passenger_id :: "string option"
  driving_policy :: json

definition new_session :: "string \<Rightarrow> SessionState" where
  "new_session sid =
     \<lparr> session_id = sid, user_id = None, ride_id = None, city = None,
       pending_question = None, last_poi_suggestions = [], last_ui_options = [],
       mode = NORMAL, music_playing = False, music_genre = None, music_paused = False,
       music_volume = JInt 5, is_ride_active = False, current_destination_name = None,
       current_destination_id = None, current_passenger_id = None,
       driving_policy = JStr ''Sport'' \<rparr>"

text \<open>
  \<^verbatim>\<open>app/session_store.py\<close>: the store is a dictionary from session ids to session
  states.  \<^verbatim>\<open>get_session\<close> creates the entry when it is missing, so it returns the
  store too.  A session object obtained once and read later in the source is the store's
  entry at the time of the read; \<open>the_session\<close> reads it.
\<close>

type_synonym SessionStore = "string \<rightharpoonup> SessionState"

definition get_session :: "SessionStore \<Rightarrow> string \<Rightarrow> SessionStore \<times> SessionState" where
  "get_session st sid =
     (case st sid of
        None \<Rightarrow> (st(sid \<mapsto> new_session sid), new_session sid)
      | Some s \<Rightarrow> (st, s))"

definition put_session :: "SessionStore \<Rightarrow> string \<Rightarrow> SessionState \<Rightarrow> SessionStore" where
  "put_session st sid s = st(sid \<mapsto> s)"

definition the_session :: "SessionStore \<Rightarrow> string \<Rightarrow> SessionState" where
  "the_session st sid = snd (get_session st sid)"

text \<open>
  \<^verbatim>\<open>update_session\<close> assigns the fields whose keyword argument is not
  \<^verbatim>\<open>None\<close>; a call is modelled by the list of the assignments it makes.
\<close>

datatype session_update =
    Set_user_id string
  | Set_ride_id string
  | Set_city string
  | Set_pending_question string
  | Set_last_poi_suggestions "string list"
  | Set_last_ui_options "option_dict list"
  | Set_mode SessionMode
  | Set_music_playing bool
  | Set_music_genre string
  | Set_music_paused bool

fun apply_update :: "session_update \<Rightarrow> SessionState \<Rightarrow> SessionState" where
  "apply_update (Set_user_id v) s = s\<lparr>user_id := Some v\<rparr>"
| "apply_update (Set_ride_id v) s = s\<lparr>ride_id := Some v\<rparr>"
| "apply_update (Set_city v) s = s\<lparr>city := Some v\<rparr>"
| "apply_update (Set_pending_question v) s = s\<lparr>pending_question := Some v\<rparr>"
| "apply_update (Set_last_poi_suggestions v) s = s\<lparr>last_poi_suggestions := v\<rparr>"
| "apply_update (Set_last_ui_options v) s = s\<lparr>last_ui_options := v\<rparr>"
| "apply_update (Set_mode v) s = s\<lparr>mode := v\<rparr>"
| "apply_update (Set_music_playing v) s = s\<lparr>music_playing := v\<rparr>"
| "apply_update (Set_music_genre v) s = s\<lparr>music_genre := Some v\<rparr>"
| "apply_update (Set_music_paused v) s = s\<lparr>music_paused := v\<rparr>"

definition update_session :: "SessionStore \<Rightarrow> string \<Rightarrow> session_update list \<Rightarrow> SessionStore" where
  "update_session st sid updates =
     (let (st1, session) = get_session st sid
      in put_session st1 sid (fold apply_update updates session))"

definition clear_pending_question :: "SessionStore \<Rightarrow> string \<Rightarrow> SessionStore" where
  "clear_pending_question st sid =
     (let (st1, session) = get_session st sid
      in put_session st1 sid (session\<lparr>pending_question := None\<rparr>))"

definition clear_poi_suggestions :: "SessionStore \<Rightarrow> string \<Rightarrow> SessionStore" where
  "clear_poi_suggestions st sid =
     (let (st1, session) = get_session st sid
      in put_session st1 sid (session\<lparr>last_poi_suggestions := []\<rparr>))"

definition store_is_ride_active :: "SessionStore \<Rightarrow> string \<Rightarrow> SessionStore \<times> bool" where
  "store_is_ride_active st sid =
     (let (st1, session) = get_session st sid in (st1, is_ride_active session))"

text \<open>
  The values that the volume operations store: an integer from 1 to 10, or a float
  strictly between 1 and 10.
\<close>

definition volume_in_range :: "json \<Rightarrow> bool" where
  "volume_in_range v =
     (case v of
        JInt i \<Rightarrow> 1 \<le> i \<and> i \<le> 10
      | JFloat (Finite r) \<Rightarrow> 1 < r \<and> r < 10
      | _ \<Rightarrow> False)"

text \<open>
  \<^verbatim>\<open>set_volume\<close> and \<^verbatim>\<open>adjust_volume\<close>.  The session is fetched, and created
  when missing, before the new value is computed; when the computation raises, nothing is
  assigned.  Each returns the store and the value it returns or the exception it raises.
\<close>

definition set_volume :: "SessionStore \<Rightarrow> string \<Rightarrow> json \<Rightarrow> SessionStore \<times> (exn + json)" where
  "set_volume st sid volume =
     (let (st1, session) = get_session st sid
      in case and_then (py_min_int 10 volume) (py_max_int 1) of
           Inl e \<Rightarrow> (st1, Inl e)
         | Inr v \<Rightarrow> (put_session st1 sid (session\<lparr>music_volume := v\<rparr>), Inr v))"

definition adjust_volume ::
    "(rat \<Rightarrow> pyfloat) \<Rightarrow> SessionStore \<Rightarrow> string \<Rightarrow> int \<Rightarrow> SessionStore \<times> (exn + json)" where
  "adjust_volume rnd st sid delta =
     (let (st1, session) = get_session st sid
      in case and_then (py_add_int rnd (music_volume session) delta) (\<lambda>sum.
              and_then (py_min_int 10 sum) (py_max_int 1)) of
           Inl e \<Rightarrow> (st1, Inl e)
         | Inr v \<Rightarrow> (put_session st1 sid (session\<lparr>music_volume := v\<rparr>), Inr v))"

section \<open>Tool results and the volume tools\<close>

text \<open>
  \<^verbatim>\<open>app/schemas.py\<close>: a command is a dictionary with a \<^verbatim>\<open>type\<close> and a
  \<^verbatim>\<open>payload\<close> dictionary.  The texts shown to the user contain emoji, which are
  outside the modelled characters; a message is modelled by a constructor that names the
  sentence of the source and carries the values formatted into it, and the labels of the
  fixed buttons are written without their emoji.
\<close>

record Command =
  cmd_type :: string
  payload :: "(string \<times> json) list"

datatype Message =
    MsgVolumeUp json
  | MsgVolumeDown json
  | MsgVolumeSet json
  | MsgPolicyForced string
  | MsgAskPolicy
  | MsgPolicyUnknown string
  | MsgPolicyAlreadyActive string
  | MsgPolicyRequested string
  | MsgTaxiNotConnected
  | MsgPoiNotFound
  | MsgGoingTo json
  | MsgEmpty
  | MsgRejected
  | MsgConfirmed
  | MsgHelp
  | MsgGreeting
  | MsgNegation
  | MsgCancelled
  | MsgPreRideGreeting
  | MsgPreRideHelp
  | MsgPreRideUnclear
  | MsgText string

record ToolResult =
  message :: Message
  ui_options :: "UIOption list"
  commands :: "Command list"

text \<open>
  \<^verbatim>\<open>app/tools/music_tools.py\<close>: \<^verbatim>\<open>VolumeUpTool.execute\<close>,
  \<^verbatim>\<open>VolumeDownTool.execute\<close> and \<^verbatim>\<open>VolumeSetTool.execute\<close>.  Of the tool
  context they read the session id and the parameters, a dictionary whose values are
  what the LLM answered.
\<close>

definition set_volume_cmd :: "json \<Rightarrow> Command" where
  "set_volume_cmd v = \<lparr> cmd_type = ''SET_VOLUME'', payload = [(''volume'', v)] \<rparr>"

definition volume_up_execute ::
    "(rat \<Rightarrow> pyfloat) \<Rightarrow> SessionStore \<Rightarrow> string \<Rightarrow> SessionStore \<times> (exn + ToolResult)" where
  "volume_up_execute rnd st sid =
     (case adjust_volume rnd st sid 2 of
        (st', Inl e) \<Rightarrow> (st', Inl e)
      | (st', Inr new_vol) \<Rightarrow>
          (st', Inr \<lparr> message = MsgVolumeUp new_vol, ui_options = [],
                      commands = [set_volume_cmd new_vol] \<rparr>))"

definition volume_down_execute ::
    "(rat \<Rightarrow> pyfloat) \<Rightarrow> SessionStore \<Rightarrow> string \<Rightarrow> SessionStore \<times> (exn + ToolResult)" where
  "volume_down_execute rnd st sid =
     (case adjust_volume rnd st sid (- 2) of
        (st', Inl e) \<Rightarrow> (st', Inl e)
      | (st', Inr new_vol) \<Rightarrow>
          (st', Inr \<lparr> message = MsgVolumeDown new_vol, ui_options = [],
                      commands = [set_volume_cmd new_vol] \<rparr>))"

definition volume_set_execute ::
    "SessionStore \<Rightarrow> string \<Rightarrow> (string \<times> json) list \<Rightarrow> SessionStore \<times> (exn + ToolResult)" where
  "volume_set_execute st sid tool_params =
     (let volume = (case map_of tool_params ''volume'' of None \<Rightarrow> JInt 5 | Some v \<Rightarrow> v)
      in case set_volume st sid volume of
           (st', Inl e) \<Rightarrow> (st', Inl e)
         | (st', Inr new_vol) \<Rightarrow>
             (st', Inr \<lparr> message = MsgVolumeSet new_vol, ui_options = [],
                         commands = [set_volume_cmd new_vol] \<rparr>))"

text \<open>The three volume tools, by tool id, each with the parameters of its context.\<close>

datatype VolumeTool = Volume_up | Volume_down | Volume_set

fun volume_tool_execute ::
    "(rat \<Rightarrow> pyfloat) \<Rightarrow> VolumeTool \<Rightarrow> SessionStore \<Rightarrow> string \<Rightarrow> (string \<times> json) list
      \<Rightarrow> SessionStore \<times> (exn + ToolResult)" where
  "volume_tool_execute rnd Volume_up st sid tool_params = volume_up_execute rnd st sid"
| "volume_tool_execute rnd Volume_down st sid tool_params = volume_down_execute rnd st sid"
| "volume_tool_execute rnd Volume_set st sid tool_params = volume_set_execute st sid tool_params"

text \<open>
  The value that a volume tool clamps: the \<^verbatim>\<open>volume\<close> parameter, 5 when the key is
  missing, for \<^verbatim>\<open>volume_set\<close>, and the stored volume, to which 2 is added or
  subtracted, for \<^verbatim>\<open>volume_up\<close> and \<^verbatim>\<open>volume_down\<close>.
\<close>

definition volume_argument :: "VolumeTool \<Rightarrow> SessionStore \<Rightarrow> string \<Rightarrow> (string \<times> json) list \<Rightarrow> json" where
  "volume_argument t st sid tool_params =
     (case t of
        Volume_set \<Rightarrow> (case map_of tool_params ''volume'' of None \<Rightarrow> JInt 5 | Some v \<Rightarrow> v)
      | _ \<Rightarrow> music_volume (the_session st sid))"

section \<open>External collaborators\<close>

text \<open>
  The prompts are fixed templates filled with the message and its context; a prompt is
  modelled by the template's name and the values formatted into it.
\<close>

datatype prompt =
    NeedPrompt string
  | OptionPrompt string string
  | ToolPrompt string string string
  | ConversationalPrompt string

text \<open>
  What the classifier calls and this repository does not define: the LLM
  (\<^verbatim>\<open>_call_llm\<close>, an HTTP request that returns the answer's text or raises),
  \<^verbatim>\<open>json.loads\<close> (it raises \<^verbatim>\<open>JSONDecodeError\<close> on malformed text), the
  conversion \<^verbatim>\<open>float(s)\<close> of a string (\<open>None\<close> when it raises \<^verbatim>\<open>ValueError\<close>)
  and the rounding of a rational number to the nearest double.
\<close>

record llm_env =
  call_llm :: "prompt \<Rightarrow> exn + string"
  json_loads :: "string \<Rightarrow> exn + json"
  float_of_str :: "string \<Rightarrow> pyfloat option"
  round_double :: "rat \<Rightarrow> pyfloat"

text \<open>
  \<^verbatim>\<open>float(x)\<close>.  The conversion of an integer rounds to the nearest double and raises
  \<^verbatim>\<open>OverflowError\<close> from \<open>2^1024 - 2^970\<close> on.
\<close>

fun py_float :: "'a llm_env_scheme \<Rightarrow> json \<Rightarrow> exn + pyfloat" where
  "py_float env (JBool b) = Inr (Finite (if b then 1 else 0))"
| "py_float env (JInt i) =
     (if \<bar>i\<bar> < 2 ^ 1024 - 2 ^ 970 then Inr (round_double env (of_int i))
      else Inl OverflowError)"
| "py_float env (JFloat f) = Inr f"
| "py_float env (JStr s) =
     (case float_of_str env s of None \<Rightarrow> Inl ValueError | Some f \<Rightarrow> Inr f)"
| "py_float env _ = Inl TypeError"

section \<open>Intent classifier\<close>

text \<open>
  \<^verbatim>\<open>app/llm/intent_classifier.py\<close>: the result types.  Their fields hold what the LLM
  returned, unvalidated.  Each operation returns its result and the prompts it sent to
  the LLM.
\<close>

record ClassifyResult =
  need :: json
  confidence :: pyfloat
  subcategory :: json

record MatchResult =
  selected_id :: json
  action :: json

record ToolClassifyResult =
  tool_id :: json
  params :: json
  tool_confidence :: json

definition ToolClassifyResult_none :: ToolClassifyResult where
  "ToolClassifyResult_none =
     \<lparr> tool_id = JNull, params = JNull, tool_confidence = JFloat (Finite 0) \<rparr>"

text \<open>
  \<^verbatim>\<open>_parse_json_response\<close>: a leading code fence is removed with its last line, the
  text is parsed, and when that fails the first match of \<^verbatim>\<open>\{[^}]+\}\<close> is parsed; when
  nothing parses the result is the empty dictionary.  Only \<^verbatim>\<open>JSONDecodeError\<close> is
  caught.
\<close>

definition braced :: "string matcher" where
  "braced =
     re_lit False ''{''
       (re_many1 (\<lambda>c. c \<noteq> CHR ''}'')
          (\<lambda>body. re_lit False ''}'' (re_end (''{'' @ body @ ''}''))))"

definition parse_json_response :: "'a llm_env_scheme \<Rightarrow> string \<Rightarrow> exn + json" where
  "parse_json_response env response0 =
     (let response1 = strip response0;
          response =
            (if startswith response1 [CHR 0x60, CHR 0x60, CHR 0x60]
             then join [CHR 0x0A] (butlast (tl (split_on (CHR 0x0A) [] response1)))
             else response1)
      in case json_loads env response of
           Inr v \<Rightarrow> Inr v
         | Inl e \<Rightarrow>
             (if e = JSONDecodeError
              then
                (case re_search braced response of
                   None \<Rightarrow> Inr (JObj [])
                 | Some json_match \<Rightarrow>
                     (case json_loads env json_match of
                        Inr v \<Rightarrow> Inr v
                      | Inl e' \<Rightarrow> if e' = JSONDecodeError then Inr (JObj []) else Inl e'))
              else Inl e))"

text \<open>
  \<^verbatim>\<open>_clean_need_value\<close> and \<^verbatim>\<open>_clean_subcategory_value\<close> applied to a truthy
  value of the answer: on a value that is no string they raise (a membership test on an
  unhashable value, or a missing method \<^verbatim>\<open>lower\<close>).
\<close>

definition valid_subcategories :: "string list" where
  "valid_subcategories = [''colazione'', ''pranzo'', ''cena'', ''spuntino'']"

definition clean_subcategory_value :: "string list \<Rightarrow> string \<Rightarrow> string option" where
  "clean_subcategory_value order sub_str =
     (if lower sub_str \<in> set valid_subcategories then Some (lower sub_str)
      else
        (case (if contains sub_str ''|''
               then find (\<lambda>part. part \<in> set valid_subcategories)
                      (map (\<lambda>part. lower (strip part)) (split_on (CHR ''|'') [] sub_str))
               else None) of
           Some part \<Rightarrow> Some part
         | None \<Rightarrow> find (\<lambda>valid. contains (lower sub_str) valid) order))"

fun clean_need_json :: "string list \<Rightarrow> json \<Rightarrow> exn + json" where
  "clean_need_json order (JStr s) =
     Inr (case clean_need_value order s of None \<Rightarrow> JNull | Some v \<Rightarrow> JStr v)"
| "clean_need_json order (JArr xs) = Inl TypeError"
| "clean_need_json order (JObj kvs) = Inl TypeError"
| "clean_need_json order _ = Inl AttributeError"

fun clean_subcategory_json :: "string list \<Rightarrow> json \<Rightarrow> exn + json" where
  "clean_subcategory_json order (JStr s) =
     Inr (case clean_subcategory_value order s of None \<Rightarrow> JNull | Some v \<Rightarrow> JStr v)"
| "clean_subcategory_json order _ = Inl AttributeError"

text \<open>
  \<^verbatim>\<open>classify_need\<close>.  The iteration orders of the two sets of valid values are
  parameters.  \<open>classify_need_try\<close> is the body of the \<^verbatim>\<open>try\<close> block after the
  call of the LLM.
\<close>

definition ClassifyResult_default :: ClassifyResult where
  "ClassifyResult_default = \<lparr> need = JNull, confidence = Finite 0, subcategory = JNull \<rparr>"

definition null_to_none :: "json \<Rightarrow> json" where
  "null_to_none v = (if v = JStr ''null'' \<or> v = JNull then JNull else v)"

definition classify_need_try ::
    "'a llm_env_scheme \<Rightarrow> string list \<Rightarrow> string list \<Rightarrow> string \<Rightarrow> exn + ClassifyResult" where
  "classify_need_try env need_order sub_order response =
     and_then (parse_json_response env response) (\<lambda>result.
     and_then (dict_get result ''need'' JNull) (\<lambda>need0.
     and_then (let need1 = null_to_none need0
               in if truthy need1 then clean_need_json need_order need1 else Inr need1) (\<lambda>need2.
     and_then (dict_get result ''confidence'' (JFloat (Finite 0))) (\<lambda>confidence0.
     and_then (py_float env confidence0) (\<lambda>confidence1.
     and_then (dict_get result ''subcategory'' JNull) (\<lambda>subcategory0.
     and_then (let subcategory1 = null_to_none subcategory0
               in if truthy subcategory1 then clean_subcategory_json sub_order subcategory1
                  else Inr subcategory1) (\<lambda>subcategory2.
     Inr \<lparr> need = need2, confidence = confidence1, subcategory = subcategory2 \<rparr>)))))))"

definition classify_need ::
    "'a llm_env_scheme \<Rightarrow> string list \<Rightarrow> string list \<Rightarrow> string
      \<Rightarrow> ClassifyResult \<times> prompt list" where
  "classify_need env need_order sub_order msg_text =
     (let prompt = NeedPrompt msg_text
      in (case and_then (call_llm env prompt) (classify_need_try env need_order sub_order) of
            Inr result \<Rightarrow> result
          | Inl e \<Rightarrow> ClassifyResult_default,
          [prompt]))"

text \<open>
  \<^verbatim>\<open>classify_with_tools\<close>: the JSON object is cut out of the answer from the first
  \<^verbatim>\<open>{\<close> to the last \<^verbatim>\<open>}\<close>.
\<close>

definition classify_with_tools_try ::
    "'a llm_env_scheme \<Rightarrow> string \<Rightarrow> exn + ToolClassifyResult" where
  "classify_with_tools_try env response =
     (case (find_index (CHR ''{'') response, rfind_index (CHR ''}'') response) of
        (Some start_idx, Some end_idx) \<Rightarrow>
          (if end_idx > start_idx
           then
             and_then (json_loads env (take (end_idx + 1 - start_idx) (drop start_idx response)))
               (\<lambda>data.
             and_then (dict_get data ''tool_id'' JNull) (\<lambda>tool_id'.
             and_then (dict_get data ''params'' (JObj [])) (\<lambda>params'.
             and_then (dict_get data ''confidence'' (JFloat (Finite float_0_8))) (\<lambda>confidence'.
             Inr (if truthy tool_id' \<and> tool_id' \<noteq> JStr ''none''
                  then \<lparr> tool_id = tool_id', params = params', tool_confidence = confidence' \<rparr>
                  else ToolClassifyResult_none)))))
           else Inr ToolClassifyResult_none)
      | _ \<Rightarrow> Inr ToolClassifyResult_none)"

definition classify_with_tools ::
    "'a llm_env_scheme \<Rightarrow> string \<Rightarrow> string \<Rightarrow> string
      \<Rightarrow> ToolClassifyResult \<times> prompt list" where
  "classify_with_tools env msg_text tools_prompt context_info =
     (let prompt = ToolPrompt msg_text tools_prompt
            (if context_info = [] then ''Nessun contesto speciale'' else context_info)
      in (case and_then (call_llm env prompt) (classify_with_tools_try env) of
            Inr result \<Rightarrow> result
          | Inl e \<Rightarrow> ToolClassifyResult_none,
          [prompt]))"

text \<open>\<^verbatim>\<open>get_conversational_response\<close>; the canned answer is the source's.\<close>

definition canned_response :: string where
  "canned_response =
     ''Come posso aiutarti? Dimmi se hai fame, sete, o se vuoi visitare qualche posto!''"

definition get_conversational_response ::
    "'a llm_env_scheme \<Rightarrow> string \<Rightarrow> string \<times> prompt list" where
  "get_conversational_response env msg_text =
     (let prompt = ConversationalPrompt msg_text
      in (case call_llm env prompt of
            Inr response \<Rightarrow> strip response
          | Inl e \<Rightarrow> canned_response,
          [prompt]))"

section \<open>Option matching\<close>

text \<open>
  \<^verbatim>\<open>_extract_option_index\<close>: the ordinal words in the order of the dictionary, then
  the pattern for \<^verbatim>\<open>numero\<close>, \<^verbatim>\<open>n\<close> with an optional full stop, or
  \<^verbatim>\<open>n\<close> with a degree sign (U+00B0) or an ordinal indicator (U+00BA), followed by
  optional white space and digits between word boundaries, then \<^verbatim>\<open>\b(\d+)\b\<close>.
\<close>

definition ordinal_map :: "(string \<times> nat) list" where
  "ordinal_map =
     [(''primo'', 1), (''prima'', 1), (''secondo'', 2), (''seconda'', 2),
      (''terzo'', 3), (''terza'', 3), (''quarto'', 4), (''quarta'', 4),
      (''quinto'', 5), (''quinta'', 5), (''sesto'', 6), (''sesta'', 6),
      (''settimo'', 7), (''settima'', 7), (''ottavo'', 8), (''ottava'', 8),
      (''nono'', 9), (''nona'', 9), (''decimo'', 10), (''decima'', 10)]"

definition number_tail :: "string matcher" where
  "number_tail = re_space0 (re_digits1 (\<lambda>digits. re_b (re_end digits)))"

definition numero_pattern :: "string matcher" where
  "numero_pattern =
     re_b (re_alts
       [re_lit False ''numero'' number_tail,
        re_lit False ''n'' (re_alt (re_lit False ''.'' number_tail) number_tail),
        re_lit False [CHR ''n'', CHR 0xB0] number_tail,
        re_lit False [CHR ''n'', CHR 0xBA] number_tail])"

definition bare_number_pattern :: "string matcher" where
  "bare_number_pattern = re_b (re_digits1 (\<lambda>digits. re_b (re_end digits)))"

definition in_range :: "nat \<Rightarrow> nat \<Rightarrow> bool" where
  "in_range idx options_count = (1 \<le> idx \<and> idx \<le> options_count)"

definition extract_option_index :: "string \<Rightarrow> nat \<Rightarrow> nat option" where
  "extract_option_index text options_count =
     (if options_count \<le> 0 then None
      else
        (case find (\<lambda>(word, idx). search_word word text \<and> in_range idx options_count)
                ordinal_map of
           Some (word, idx) \<Rightarrow> Some idx
         | None \<Rightarrow>
             (case (case re_search numero_pattern text of
                      Some digits \<Rightarrow>
                        if in_range (int_of_digits digits) options_count
                        then Some (int_of_digits digits) else None
                    | None \<Rightarrow> None) of
                Some idx \<Rightarrow> Some idx
              | None \<Rightarrow>
                  (case re_search bare_number_pattern text of
                     Some digits \<Rightarrow>
                       if in_range (int_of_digits digits) options_count
                       then Some (int_of_digits digits) else None
                   | None \<Rightarrow> None))))"

text \<open>
  \<^verbatim>\<open>_fuzzy_match_option\<close>.  The options are dictionaries; \<^verbatim>\<open>opt["label"]\<close> and
  \<^verbatim>\<open>opt["id"]\<close> raise \<^verbatim>\<open>KeyError\<close> on a dictionary without the key.
\<close>

definition subscript :: "option_dict \<Rightarrow> string \<Rightarrow> exn + string" where
  "subscript opt key = (case map_of opt key of None \<Rightarrow> Inl KeyError | Some v \<Rightarrow> Inr v)"

fun fuzzy_match_option :: "string \<Rightarrow> option_dict list \<Rightarrow> exn + json" where
  "fuzzy_match_option text [] = Inr JNull"
| "fuzzy_match_option text (opt # options) =
     and_then (subscript opt ''label'') (\<lambda>label.
       if contains (lower text) (lower label) \<or> contains (lower label) (lower text)
       then and_then (subscript opt ''id'') (\<lambda>i. Inr (JStr i))
       else fuzzy_match_option text options)"

text \<open>
  \<^verbatim>\<open>match_option\<close>.  \<open>match_option_precheck\<close> is the body of the first
  \<^verbatim>\<open>try\<close> block: the cancellation phrases, then the index of an option.  The
  function contains the statement \<^verbatim>\<open>import re\<close>, in its second \<^verbatim>\<open>try\<close> block,
  which makes \<^verbatim>\<open>re\<close> a local variable of the whole function; until that statement
  runs the variable is unbound, and reading it raises \<^verbatim>\<open>UnboundLocalError\<close>.  The
  first argument of \<open>match_option_precheck\<close> says whether \<^verbatim>\<open>re\<close> is bound when the
  block runs; \<open>match_option\<close> runs it with \<^verbatim>\<open>re\<close> unbound.  \<open>match_option_try\<close> is
  the body of the second \<^verbatim>\<open>try\<close> block after the call of the LLM.
\<close>

definition cancel_pattern :: "unit matcher" where
  "cancel_pattern =
     re_b (re_alts
       [re_lit False ''no'' (re_b (re_end ())),
        re_lit False ''niente'' (re_b (re_end ())),
        re_lit False ''annulla'' (re_b (re_end ())),
        re_lit False ''non voglio'' (re_b (re_end ())),
        re_lit False ''lascia stare'' (re_b (re_end ()))])"

definition nth_opt :: "'a list \<Rightarrow> nat \<Rightarrow> 'a option" where
  "nth_opt xs i = (if i < length xs then Some (xs ! i) else None)"

definition match_option_precheck ::
    "bool \<Rightarrow> string \<Rightarrow> option_dict list \<Rightarrow> exn + MatchResult option" where
  "match_option_precheck re_is_bound msg_text options =
     (let text_lower = lower msg_text
      in if \<not> re_is_bound then Inl UnboundLocalError
         else if re_search cancel_pattern text_lower \<noteq> None
         then Inr (Some \<lparr> selected_id = JNull, action = JStr ''cancel'' \<rparr>)
         else
           (case extract_option_index text_lower (length options) of
              None \<Rightarrow> Inr None
            | Some index \<Rightarrow>
                (case nth_opt options (index - 1) of
                   None \<Rightarrow> Inl IndexError
                 | Some opt \<Rightarrow>
                     (case map_of opt ''id'' of
                        None \<Rightarrow> Inr None
                      | Some selected \<Rightarrow>
                          if selected \<noteq> []
                          then Inr (Some \<lparr> selected_id = JStr selected, action = JStr ''select'' \<rparr>)
                          else Inr None))))"

definition poi_id_pattern :: "string matcher" where
  "poi_id_pattern =
     re_lit False ''poi:POI_'' (re_digits1 (\<lambda>digits. re_end (''poi:POI_'' @ digits)))"

definition bare_poi_id_pattern :: "string matcher" where
  "bare_poi_id_pattern =
     re_lit False ''POI_'' (re_digits1 (\<lambda>digits. re_end (''POI_'' @ digits)))"

definition clean_selected_id :: "json \<Rightarrow> option_dict list \<Rightarrow> exn + json" where
  "clean_selected_id selected options =
     (case selected of
        JStr s \<Rightarrow>
          (case re_search poi_id_pattern s of
             Some m \<Rightarrow> Inr (JStr m)
           | None \<Rightarrow>
               (case re_search bare_poi_id_pattern s of
                  Some m \<Rightarrow> Inr (JStr (''poi:'' @ m))
                | None \<Rightarrow> fuzzy_match_option s options))
      | _ \<Rightarrow> Inl TypeError)"

definition match_option_try ::
    "'a llm_env_scheme \<Rightarrow> option_dict list \<Rightarrow> string \<Rightarrow> exn + MatchResult" where
  "match_option_try env options response =
     and_then (parse_json_response env response) (\<lambda>result.
     and_then (dict_get result ''selected_id'' JNull) (\<lambda>selected0.
     and_then (dict_get result ''action'' (JStr ''unclear'')) (\<lambda>action0.
       (let selected1 =
              (if selected0 = JStr ''null'' \<or> selected0 = JNull \<or> selected0 = JStr ''''
               then JNull else selected0);
            action1 = (if selected1 = JStr ''cancel'' then JStr ''cancel'' else action0);
            selected2 = (if selected1 = JStr ''cancel'' then JNull else selected1)
        in and_then (if truthy selected2 \<and> action1 = JStr ''select''
                     then clean_selected_id selected2 options else Inr selected2)
             (\<lambda>selected3. Inr \<lparr> selected_id = selected3, action = action1 \<rparr>)))))"

definition MatchResult_unclear :: MatchResult where
  "MatchResult_unclear = \<lparr> selected_id = JNull, action = JStr ''unclear'' \<rparr>"

text \<open>
  The list of the options in the prompt is built between the two \<^verbatim>\<open>try\<close> blocks,
  so its \<^verbatim>\<open>KeyError\<close> reaches the caller.
\<close>

fun options_list_lines :: "option_dict list \<Rightarrow> exn + string list" where
  "options_list_lines [] = Inr []"
| "options_list_lines (opt # options) =
     and_then (subscript opt ''id'') (\<lambda>i.
     and_then (subscript opt ''label'') (\<lambda>label.
     and_then (options_list_lines options) (\<lambda>lines.
     Inr ((''- ID: '' @ i @ '' | Nome: '' @ label) # lines))))"

definition options_list :: "option_dict list \<Rightarrow> exn + string" where
  "options_list options =
     and_then (options_list_lines options) (\<lambda>lines. Inr (join [CHR 0x0A] lines))"

definition match_option ::
    "'a llm_env_scheme \<Rightarrow> string \<Rightarrow> option_dict list \<Rightarrow> (exn + MatchResult) \<times> prompt list" where
  "match_option env msg_text options =
     (if options = [] then (Inr MatchResult_unclear, [])
      else
        (case (case match_option_precheck False msg_text options of
                 Inr found \<Rightarrow> found
               | Inl e \<Rightarrow> None) of
           Some result \<Rightarrow> (Inr result, [])
         | None \<Rightarrow>
             (case options_list options of
                Inl e \<Rightarrow> (Inl e, [])
              | Inr listed \<Rightarrow>
                  (let prompt = OptionPrompt listed msg_text
                   in (case and_then (call_llm env prompt) (match_option_try env options) of
                         Inr result \<Rightarrow> Inr result
                       | Inl e \<Rightarrow> Inr MatchResult_unclear,
                       [prompt])))))"

section \<open>The cancellation phrases and example inputs\<close>

text \<open>
  The phrases of the cancellation pattern of \<^verbatim>\<open>match_option\<close>, as a list; the claims
  about it are stated with this list.
\<close>

definition cancel_words :: "string list" where
  "cancel_words = [''no'', ''niente'', ''annulla'', ''non voglio'', ''lascia stare'']"

text \<open>
  Inputs on which the operations are evaluated (none of them converts a number, and
  their rounding is the identity): three options as a POI answer offers
  them, an LLM whose every call raises, an LLM that answers with a JSON list, which
  the classifier cannot read as a dictionary, and an LLM whose answer is no JSON at all.
\<close>

definition example_options :: "option_dict list" where
  "example_options =
     [[(''id'', ''poi:POI_001''), (''label'', ''Bar Roma'')],
      [(''id'', ''poi:POI_002''), (''label'', ''Pizzeria Napoli'')],
      [(''id'', ''cancel''), (''label'', ''Annulla'')]]"

definition llm_down :: llm_env where
  "llm_down =
     \<lparr> call_llm = (\<lambda>p. Inl (OtherError ''ConnectError'')),
       json_loads = (\<lambda>s. Inl JSONDecodeError),
       float_of_str = (\<lambda>s. None),
       round_double = Finite \<rparr>"



text \<open>
  An LLM that answers every prompt with the JSON object that selects the first of the
  example options, and a list of options whose only entry lacks the key \<^verbatim>\<open>id\<close>.
\<close>

definition quoted :: "string \<Rightarrow> string" where
  "quoted s = [CHR 0x22] @ s @ [CHR 0x22]"

definition select_first_answer :: string where
  "select_first_answer =
     ''{'' @ quoted ''selected_id'' @ '': '' @ quoted ''poi:POI_001'' @ '', ''
       @ quoted ''action'' @ '': '' @ quoted ''select'' @ ''}''"

definition llm_picks_first :: llm_env where
  "llm_picks_first =
     \<lparr> call_llm = (\<lambda>p. Inr select_first_answer),
       json_loads =
         (\<lambda>s. if s = select_first_answer
              then Inr (JObj [(''selected_id'', JStr ''poi:POI_001''), (''action'', JStr ''select'')])
              else Inl JSONDecodeError),
       float_of_str = (\<lambda>s. None),
       round_double = Finite \<rparr>"

definition example_listing :: string where
  "example_listing =
     ''- ID: poi:POI_001 | Nome: Bar Roma'' @ [CHR 0x0A]
       @ ''- ID: poi:POI_002 | Nome: Pizzeria Napoli'' @ [CHR 0x0A]
       @ ''- ID: cancel | Nome: Annulla''"


section \<open>The world around the pipeline\<close>

text \<open>
  The effects of the dispatch code are kept in a trace: the prompts sent to the LLM, the
  lookups in the POI repository, the messages sent to the simulator (Unity), the calls of
  the operations that are taken as given, and the log records of level warning and error.
  A world is the session store, the state of the connection to the simulator and the
  trace so far.  \<^verbatim>\<open>ConnectionManager.send_to_unity\<close> catches the failures of the
  socket, so a send on an open connection is one event and never raises.
\<close>

datatype unity_msg =
    Cambio_policy string string
  | Cambio_destinazione string json json json

datatype log_level = WARNING | ERROR

datatype event =
    LLM_call prompt
  | Repo_lookup json
  | Repo_record_visit string string
  | Sent_to_unity unity_msg
  | Tool_call json json
  | UI_action_call json
  | Need_request_call json json
  | Log log_level string

record world =
  store :: SessionStore
  unity_connected :: bool
  trace :: "event list"

definition emit :: "event list \<Rightarrow> world \<Rightarrow> world" where
  "emit es w = w\<lparr>trace := trace w @ es\<rparr>"

definition with_store :: "(SessionStore \<Rightarrow> SessionStore) \<Rightarrow> world \<Rightarrow> world" where
  "with_store f w = w\<lparr>store := f (store w)\<rparr>"

text \<open>A response of the backend: a tool result with the session id it is sent to.\<close>

record Response = ToolResult +
  response_session_id :: string

definition to_response :: "ToolResult \<Rightarrow> string \<Rightarrow> Response" where
  "to_response r sid =
     \<lparr> message = message r, ui_options = ui_options r, commands = commands r,
       response_session_id = sid \<rparr>"

text \<open>
  What the dispatch code calls and is taken as given.  The POI repository
  (\<^verbatim>\<open>get_poi_by_id\<close> returns a row or \<^verbatim>\<open>None\<close>; the query gives every row
  the keys \<^verbatim>\<open>name\<close> and \<^verbatim>\<open>id_unity\<close>, among others; \<^verbatim>\<open>record_visit\<close>),
  the user's conditions from the graph database (\<^verbatim>\<open>get_user_conditions\<close>), the
  iteration orders of the two sets of valid values of the classifier, the text of the
  tool catalogue (\<^verbatim>\<open>build_tools_prompt\<close>) and of the context line of the tool
  prompt, which go into prompts only, and three operations of \<^verbatim>\<open>main.py\<close> that run
  further tools and queries: \<^verbatim>\<open>_execute_tool\<close>, \<^verbatim>\<open>handle_ui_action\<close> and
  \<^verbatim>\<open>_handle_need_request\<close>.  Each of the three takes the world and returns a response
  or the exception it raises, and the world it leaves.
\<close>

record PoiRow =
  row_name :: string
  row_id_unity :: json

record app_env = llm_env +
  get_poi_by_id :: "json \<Rightarrow> exn + PoiRow option"
  record_visit :: "string \<Rightarrow> string \<Rightarrow> exn + unit"
  get_user_conditions :: "string \<Rightarrow> exn + string list"
  needs_order :: "string list"
  subcategories_order :: "string list"
  build_tools_prompt :: "SessionState \<Rightarrow> string"
  context_string :: "SessionState \<Rightarrow> string"
  execute_tool ::
    "json \<Rightarrow> json \<Rightarrow> string \<Rightarrow> string \<Rightarrow> string \<Rightarrow> world \<Rightarrow> (exn + Response) \<times> world"
  handle_ui_action :: "string \<Rightarrow> json \<Rightarrow> world \<Rightarrow> (exn + Response) \<times> world"
  handle_need_request ::
    "string \<Rightarrow> string \<Rightarrow> json \<Rightarrow> json \<Rightarrow> world \<Rightarrow> (exn + Response) \<times> world"

section \<open>Driving-policy tool\<close>

text \<open>
  \<^verbatim>\<open>app/tools/taxi_tools.py\<close>: \<^verbatim>\<open>POLICY_KEYWORDS\<close> and
  \<^verbatim>\<open>detect_policy_from_text\<close>.
\<close>

definition POLICY_KEYWORDS :: "(string \<times> string list) list" where
  "POLICY_KEYWORDS =
     [(''sport'',
        [''fretta'', ''urgente'', ''urgenza'', ''veloce'', ''sbrigati'', ''corri'', ''rapido'',
         ''di fretta'', ''ho fretta'', [CHR 0xE8] @ '' urgente'', ''sbrigarmi'', ''presto'',
         ''velocemente'', ''sport'', ''sportiva'', ''modalit'' @ [CHR 0xE0] @ '' sport'']),
      (''comfort'',
        [''relax'', ''tranquillo'', ''calma'', ''comodo'', ''comfort'', ''confortevole'',
         ''senza fretta'', ''con calma'', ''piano'', ''lentamente'', ''rilassato'',
         ''modalit'' @ [CHR 0xE0] @ '' comfort'', ''comfortevole'']),
      (''eco'',
        [''ecologico'', ''eco'', ''risparmio'', ''ecosostenibile'', ''verde'', ''ambiente'',
         ''risparmiare'', ''economico'', ''modalit'' @ [CHR 0xE0] @ '' eco'', ''green''])]"

definition detect_policy_from_text :: "string \<Rightarrow> string option" where
  "detect_policy_from_text text =
     (case find (\<lambda>(policy, keywords). list_ex (\<lambda>keyword. contains (lower text) keyword) keywords)
             POLICY_KEYWORDS of
        Some (policy, keywords) \<Rightarrow> Some (capitalize policy)
      | None \<Rightarrow> None)"

text \<open>
  \<^verbatim>\<open>app/neo4j/seed2.py\<close>: \<^verbatim>\<open>CONDITION_POLICY_RULES\<close> and
  \<^verbatim>\<open>get_effective_policy\<close>.  The reason is written without its emoji.
\<close>

definition CONDITION_POLICY_RULES :: "(string \<times> string \<times> string) list" where
  "CONDITION_POLICY_RULES =
     [(''pregnancy'',
       (''Comfort'',
        ''Per la tua sicurezza, utilizziamo la modalit'' @ [CHR 0xE0] @ '' Comfort''))]"

definition get_effective_policy :: "string \<Rightarrow> string list \<Rightarrow> string \<times> string option" where
  "get_effective_policy requested_policy user_conditions =
     (case find (\<lambda>condition. map_of CONDITION_POLICY_RULES condition \<noteq> None) user_conditions of
        Some condition \<Rightarrow>
          (case map_of CONDITION_POLICY_RULES condition of
             Some (forces_policy, reason) \<Rightarrow> (forces_policy, Some reason)
           | None \<Rightarrow> (requested_policy, None))
      | None \<Rightarrow> (requested_policy, None))"

text \<open>
  \<^verbatim>\<open>ChangeDrivingPolicyTool.execute\<close>.  Of the tool context it reads the session id,
  the user id, the message and the parameters.  \<open>forced_policy_reason\<close> is its first
  block, the check of the user's conditions inside \<^verbatim>\<open>try\<close>; \<open>requested_policy\<close>
  is the policy parameter or, when that is missing or falsy, the policy detected in the
  message.  \<^verbatim>\<open>new_policy.capitalize()\<close> and \<^verbatim>\<open>session.driving_policy.lower()\<close>
  raise \<^verbatim>\<open>AttributeError\<close> on a value that is no string.
\<close>

record ToolContext =
  ctx_session_id :: string
  ctx_user_id :: string
  ctx_message :: string
  ctx_params :: "(string \<times> json) list"

definition policy_buttons :: "UIOption list" where
  "policy_buttons =
     [\<lparr> opt_id = ''policy:Sport'', opt_label = ''Sport'' \<rparr>,
      \<lparr> opt_id = ''policy:Comfort'', opt_label = ''Comfort'' \<rparr>,
      \<lparr> opt_id = ''policy:Eco'', opt_label = ''Eco'' \<rparr>]"

definition policy_buttons_long :: "UIOption list" where
  "policy_buttons_long =
     [\<lparr> opt_id = ''policy:Sport'', opt_label = ''Sport - Pi'' @ [CHR 0xF9] @ '' veloce'' \<rparr>,
      \<lparr> opt_id = ''policy:Comfort'', opt_label = ''Comfort - Pi'' @ [CHR 0xF9] @ '' fluido'' \<rparr>,
      \<lparr> opt_id = ''policy:Eco'', opt_label = ''Eco - Pi'' @ [CHR 0xF9] @ '' ecologico'' \<rparr>]"

definition forced_policy_reason :: "'a app_env_scheme \<Rightarrow> string \<Rightarrow> world \<Rightarrow> string option \<times> world" where
  "forced_policy_reason env uid w =
     (case get_user_conditions env uid of
        Inl e \<Rightarrow> (None, emit [Log WARNING ''[TAXI_TOOL] Errore controllo condizioni''] w)
      | Inr user_conditions \<Rightarrow>
          (if user_conditions \<noteq> []
           then
             (case snd (get_effective_policy ''Sport'' user_conditions) of
                Some override_reason \<Rightarrow>
                  (if override_reason \<noteq> [] then Some override_reason else None, w)
              | None \<Rightarrow> (None, w))
           else (None, w)))"

definition requested_policy :: "ToolContext \<Rightarrow> json" where
  "requested_policy ctx =
     (let new_policy = (case map_of (ctx_params ctx) ''policy'' of None \<Rightarrow> JNull | Some v \<Rightarrow> v)
      in if truthy new_policy then new_policy
         else (case detect_policy_from_text (ctx_message ctx) of
                 None \<Rightarrow> JNull
               | Some p \<Rightarrow> JStr p))"

definition valid_policies :: "string list" where
  "valid_policies = [''Sport'', ''Comfort'', ''Eco'']"

definition plain :: "Message \<Rightarrow> ToolResult" where
  "plain m = \<lparr> message = m, ui_options = [], commands = [] \<rparr>"

definition change_driving_policy_execute ::
    "'a app_env_scheme \<Rightarrow> ToolContext \<Rightarrow> world \<Rightarrow> exn + ToolResult \<times> world" where
  "change_driving_policy_execute env ctx w0 =
     (case forced_policy_reason env (ctx_user_id ctx) w0 of
        (Some override_reason, w) \<Rightarrow> Inr (plain (MsgPolicyForced override_reason), w)
      | (None, w) \<Rightarrow>
          (let new_policy0 = requested_policy ctx
           in if \<not> truthy new_policy0
              then Inr (\<lparr> message = MsgAskPolicy, ui_options = policy_buttons_long,
                          commands = [] \<rparr>, w)
              else
                (case new_policy0 of
                   JStr p \<Rightarrow>
                     (let new_policy = capitalize p
                      in if new_policy \<notin> set valid_policies
                         then Inr (\<lparr> message = MsgPolicyUnknown new_policy,
                                     ui_options = policy_buttons, commands = [] \<rparr>, w)
                         else
                           (let (st1, session) = get_session (store w) (ctx_session_id ctx);
                                w1 = w\<lparr>store := st1\<rparr>
                            in case driving_policy session of
                                 JStr current \<Rightarrow>
                                   if lower current = lower new_policy
                                   then Inr (plain (MsgPolicyAlreadyActive current), w1)
                                   else if unity_connected w1
                                   then Inr (plain (MsgPolicyRequested new_policy),
                                             emit [Sent_to_unity
                                                     (Cambio_policy (ctx_session_id ctx) new_policy)]
                                               w1)
                                   else Inr (plain MsgTaxiNotConnected,
                                             emit [Log WARNING
                                                     ''[TAXI_TOOL] Unity not connected, cannot change policy'']
                                               w1)
                               | _ \<Rightarrow> Inl AttributeError))
                 | _ \<Rightarrow> Inl AttributeError)))"

section \<open>Side-effect processor\<close>

text \<open>
  \<^verbatim>\<open>app/main.py\<close>, \<^verbatim>\<open>_process_side_effects\<close>: one step for each command of the
  response.  \<open>pget\<close> is \<^verbatim>\<open>payload.get(key)\<close>.  A row of the repository is a
  non-empty dictionary with the key \<^verbatim>\<open>id_unity\<close>, so the recovery takes the value of
  that key from any row found.
\<close>

definition pget :: "(string \<times> json) list \<Rightarrow> string \<Rightarrow> json" where
  "pget d key = (case map_of d key of None \<Rightarrow> JNull | Some v \<Rightarrow> v)"

definition recover_id_unity :: "'a app_env_scheme \<Rightarrow> json \<Rightarrow> world \<Rightarrow> json \<times> world" where
  "recover_id_unity env poi_id w0 =
     (let w = emit [Log WARNING ''[MAIN] REROUTE_TO missing id_unity. Attempting fetch...'',
                    Repo_lookup poi_id] w0
      in case get_poi_by_id env poi_id of
           Inl e \<Rightarrow> (JNull, emit [Log ERROR ''[MAIN] Error fetching POI data''] w)
         | Inr poi_data \<Rightarrow>
             (case poi_data of
                Some row \<Rightarrow> (row_id_unity row, w)
              | None \<Rightarrow> (JNull, emit [Log ERROR ''[MAIN] Failed to recover id_unity''] w)))"

definition process_command :: "'a app_env_scheme \<Rightarrow> string \<Rightarrow> Command \<Rightarrow> world \<Rightarrow> world" where
  "process_command env sid cmd w0 =
     (if cmd_type cmd = ''REROUTE_TO''
      then
        (let (st1, active) = store_is_ride_active (store w0) sid;
             w1 = w0\<lparr>store := st1\<rparr>
         in if \<not> active
            then emit [Log WARNING ''[MAIN] REROUTE_TO ignorato: nessuna corsa attiva''] w1
            else
              (let poi_id = pget (payload cmd) ''poi_id'';
                   poi_name = pget (payload cmd) ''name'';
                   id_unity0 = pget (payload cmd) ''id_unity'';
                   (id_unity, w2) =
                     (if id_unity0 = JNull then recover_id_unity env poi_id w1
                      else (id_unity0, w1))
               in if unity_connected w2
                  then emit [Sent_to_unity (Cambio_destinazione sid poi_id poi_name id_unity)] w2
                  else emit [Log WARNING ''[MAIN] REROUTE_TO ignorato: Unity non connesso''] w2))
      else w0)"

definition process_side_effects ::
    "'a app_env_scheme \<Rightarrow> Command list \<Rightarrow> string \<Rightarrow> world \<Rightarrow> world" where
  "process_side_effects env cmds sid w = fold (process_command env sid) cmds w"

section \<open>Observations of a world and example inputs\<close>

text \<open>
  What a world's trace holds of each kind: the messages sent to the simulator, the
  lookups in the POI repository and the log records, each in order.
\<close>

definition sent_to_unity :: "world \<Rightarrow> unity_msg list" where
  "sent_to_unity w = concat (map (\<lambda>e. case e of Sent_to_unity m \<Rightarrow> [m] | _ \<Rightarrow> []) (trace w))"

definition repo_lookups :: "world \<Rightarrow> json list" where
  "repo_lookups w = concat (map (\<lambda>e. case e of Repo_lookup i \<Rightarrow> [i] | _ \<Rightarrow> []) (trace w))"

definition logged :: "world \<Rightarrow> (log_level \<times> string) list" where
  "logged w = concat (map (\<lambda>e. case e of Log l s \<Rightarrow> [(l, s)] | _ \<Rightarrow> []) (trace w))"

text \<open>
  An environment in which the LLM is down, the repository knows no POI, the user has no
  conditions, and the three operations taken as given raise; a request for the policy
  Comfort; a world with no session; a world in which the session \<^verbatim>\<open>s1\<close> has an active
  ride and the simulator is connected; a \<^verbatim>\<open>REROUTE_TO\<close> command without
  \<^verbatim>\<open>id_unity\<close>.
\<close>

definition example_env :: app_env where
  "example_env =
     \<lparr> call_llm = (\<lambda>p. Inl (OtherError ''ConnectError'')),
       json_loads = (\<lambda>s. Inl JSONDecodeError),
       float_of_str = (\<lambda>s. None),
       round_double = Finite,
       get_poi_by_id = (\<lambda>i. Inr None),
       record_visit = (\<lambda>u p. Inr ()),
       get_user_conditions = (\<lambda>u. Inr []),
       needs_order = valid_needs,
       subcategories_order = valid_subcategories,
       build_tools_prompt = (\<lambda>s. ''''),
       context_string = (\<lambda>s. ''''),
       execute_tool = (\<lambda>t p sid uid m w. (Inl (OtherError ''not used''), w)),
       handle_ui_action = (\<lambda>sid a w. (Inl (OtherError ''not used''), w)),
       handle_need_request = (\<lambda>sid uid n s w. (Inl (OtherError ''not used''), w)) \<rparr>"

definition comfort_request :: ToolContext where
  "comfort_request =
     \<lparr> ctx_session_id = ''s1'', ctx_user_id = ''u1'', ctx_message = ''vai con calma'',
       ctx_params = [(''policy'', JStr ''comfort'')] \<rparr>"

definition fresh_world :: "bool \<Rightarrow> world" where
  "fresh_world conn = \<lparr> store = Map.empty, unity_connected = conn, trace = [] \<rparr>"

definition ride_world :: world where
  "ride_world =
     \<lparr> store = [''s1'' \<mapsto> (new_session ''s1'')\<lparr>is_ride_active := True\<rparr>],
       unity_connected = True, trace = [] \<rparr>"

definition reroute_without_id :: Command where
  "reroute_without_id =
     \<lparr> cmd_type = ''REROUTE_TO'',
       payload = [(''poi_id'', JStr ''POI_404''), (''name'', JStr ''Bar Fantasma'')] \<rparr>"

section \<open>Message pipeline\<close>

text \<open>
  \<^verbatim>\<open>app/main.py\<close>: \<^verbatim>\<open>handle_user_message\<close> and \<^verbatim>\<open>handle_pre_ride_message\<close>,
  written as one function for each stage of the pipeline, from the last stage to the
  first; each stage ends in a response or goes on to the next stage.  A message is the
  validated \<^verbatim>\<open>UserMessage\<close> (without the position of the taxi); the fields of a
  pre-ride message are strings, as the chat client sends them, with their defaults filled
  in.  The session object that the handlers fetch once is the entry of the store, so a
  field read later is read from the store as it is then.
\<close>

record UserMessage =
  msg_session_id :: string
  msg_user_id :: string
  msg_ride_id :: string
  msg_city :: string
  msg_text :: string

definition respond :: "string \<Rightarrow> Message \<Rightarrow> UIOption list \<Rightarrow> Response" where
  "respond sid m opts =
     \<lparr> message = m, ui_options = opts, commands = [], response_session_id = sid \<rparr>"

definition quick_buttons :: "UIOption list" where
  "quick_buttons =
     [\<lparr> opt_id = ''quick:fame'', opt_label = ''Ho fame'' \<rparr>,
      \<lparr> opt_id = ''quick:sete'', opt_label = ''Ho sete'' \<rparr>,
      \<lparr> opt_id = ''ask_music'', opt_label = ''Metti musica'' \<rparr>]"

definition negation_buttons :: "UIOption list" where
  "negation_buttons =
     [\<lparr> opt_id = ''quick:fame'', opt_label = ''Ho fame'' \<rparr>,
      \<lparr> opt_id = ''quick:sete'', opt_label = ''Ho sete'' \<rparr>,
      \<lparr> opt_id = ''ask_music'', opt_label = ''Musica'' \<rparr>,
      \<lparr> opt_id = ''cancel'', opt_label = ''Niente, grazie'' \<rparr>]"

definition fallback_buttons :: "UIOption list" where
  "fallback_buttons =
     [\<lparr> opt_id = ''quick:fame'', opt_label = ''Ho fame'' \<rparr>,
      \<lparr> opt_id = ''quick:sete'', opt_label = ''Ho sete'' \<rparr>,
      \<lparr> opt_id = ''quick:malessere'', opt_label = ''Sto male'' \<rparr>]"

text \<open>\<^verbatim>\<open>app/services/policy.py\<close>, \<^verbatim>\<open>PolicyService.handle_poi_selection\<close>.\<close>

definition handle_poi_selection ::
    "'a app_env_scheme \<Rightarrow> string \<Rightarrow> string \<Rightarrow> string \<Rightarrow> world \<Rightarrow> (exn + ToolResult) \<times> world" where
  "handle_poi_selection env sid uid poi_id w0 =
     (let w1 = emit [Repo_lookup (JStr poi_id)] w0
      in case get_poi_by_id env (JStr poi_id) of
           Inl e \<Rightarrow> (Inl e, w1)
         | Inr None \<Rightarrow> (Inr (plain MsgPoiNotFound), w1)
         | Inr (Some poi) \<Rightarrow>
             (let w2 = emit [Repo_record_visit uid poi_id] w1
              in case record_visit env uid poi_id of
                   Inl e \<Rightarrow> (Inl e, w2)
                 | Inr u \<Rightarrow>
                     (let w3 = with_store (\<lambda>st. clear_poi_suggestions st sid) w2;
                          command =
                            \<lparr> cmd_type = ''REROUTE_TO'',
                              payload = [(''poi_id'', JStr poi_id),
                                         (''name'', JStr (row_name poi)),
                                         (''id_unity'', row_id_unity poi)] \<rparr>;
                          (st4, active) = store_is_ride_active (store w3) sid;
                          w4 = w3\<lparr>store := st4\<rparr>
                      in (Inr \<lparr> message = (if active then MsgEmpty
                                            else MsgGoingTo (JStr (row_name poi))),
                                 ui_options = [], commands = [command] \<rparr>,
                          w4))))"

text \<open>Stage 9, the conversational fallback.\<close>

definition conversational_stage ::
    "'a app_env_scheme \<Rightarrow> string \<Rightarrow> string \<Rightarrow> world \<Rightarrow> (exn + Response) \<times> world" where
  "conversational_stage env sid text w =
     (let (response_text, prompts) = get_conversational_response env text
      in (Inr (respond sid (MsgText response_text) fallback_buttons),
          emit (map LLM_call prompts) w))"

text \<open>Stage 8, the classification of a need, accepted from the confidence 0.65 on.\<close>

definition need_stage ::
    "'a app_env_scheme \<Rightarrow> string \<Rightarrow> string \<Rightarrow> string \<Rightarrow> world \<Rightarrow> (exn + Response) \<times> world" where
  "need_stage env sid uid text w =
     (let (classify_result, prompts) =
            classify_need env (needs_order env) (subcategories_order env) text;
          w1 = emit (map LLM_call prompts) w
      in if truthy (need classify_result) \<and> float_ge (confidence classify_result) float_0_65
         then
           (let w2 = with_store (\<lambda>st. update_session st sid [Set_last_poi_suggestions []]) w1
            in handle_need_request env sid uid (need classify_result)
                 (subcategory classify_result)
                 (emit [Need_request_call (need classify_result) (subcategory classify_result)] w2))
         else conversational_stage env sid text w1)"

text \<open>
  Stage 7, the selection among the POIs suggested before.  The options are built from
  the suggestions that the repository still knows, and the cancel option.
\<close>

fun poi_options ::
    "'a app_env_scheme \<Rightarrow> string list \<Rightarrow> world \<Rightarrow> (exn + option_dict list) \<times> world" where
  "poi_options env [] w = (Inr [], w)"
| "poi_options env (poi_id # poi_ids) w0 =
     (let w1 = emit [Repo_lookup (JStr poi_id)] w0
      in case get_poi_by_id env (JStr poi_id) of
           Inl e \<Rightarrow> (Inl e, w1)
         | Inr found \<Rightarrow>
             (case poi_options env poi_ids w1 of
                (Inl e, w2) \<Rightarrow> (Inl e, w2)
              | (Inr options, w2) \<Rightarrow>
                  (Inr ((case found of
                           None \<Rightarrow> []
                         | Some poi \<Rightarrow> [[(''id'', ''poi:'' @ poi_id), (''label'', row_name poi)]])
                        @ options),
                   w2)))"

definition cancel_option :: option_dict where
  "cancel_option = [(''id'', ''cancel''), (''label'', ''Annulla'')]"

definition poi_selection_stage ::
    "'a app_env_scheme \<Rightarrow> string \<Rightarrow> string \<Rightarrow> string \<Rightarrow> world \<Rightarrow> (exn + Response) \<times> world" where
  "poi_selection_stage env sid uid text w0 =
     (if last_poi_suggestions (the_session (store w0) sid) \<noteq> []
      then
        (case poi_options env (last_poi_suggestions (the_session (store w0) sid)) w0 of
           (Inl e, w1) \<Rightarrow> (Inl e, w1)
         | (Inr found, w1) \<Rightarrow>
             (case match_option env text (found @ [cancel_option]) of
                (Inl e, prompts) \<Rightarrow> (Inl e, emit (map LLM_call prompts) w1)
              | (Inr match_result, prompts) \<Rightarrow>
                  (let w2 = emit (map LLM_call prompts) w1
                   in if action match_result = JStr ''select'' \<and> truthy (selected_id match_result)
                      then
                        (case selected_id match_result of
                           JStr selected \<Rightarrow>
                             (case handle_poi_selection env sid uid
                                     (remove_all ''poi:'' 0 selected) w2 of
                                (Inl e, w3) \<Rightarrow> (Inl e, w3)
                              | (Inr result, w3) \<Rightarrow>
                                  (let w4 = with_store
                                              (\<lambda>st. update_session st sid
                                                      [Set_last_poi_suggestions []]) w3
                                   in (Inr (to_response result sid),
                                       process_side_effects env (commands result) sid w4)))
                         | _ \<Rightarrow> (Inl AttributeError, w2))
                      else if action match_result = JStr ''cancel''
                      then (Inr (respond sid MsgCancelled []),
                            with_store (\<lambda>st. update_session st sid [Set_last_poi_suggestions []])
                              w2)
                      else need_stage env sid uid text w2)))
      else need_stage env sid uid text w0)"

text \<open>
  The execution of a tool and the processing of the commands of its response.  Stage 6b,
  the policy named by a keyword of the message: its \<^verbatim>\<open>try\<close> block goes on to the
  next stage when the tool raises.
\<close>

definition run_tool ::
    "'a app_env_scheme \<Rightarrow> json \<Rightarrow> json \<Rightarrow> string \<Rightarrow> string \<Rightarrow> string \<Rightarrow> world
      \<Rightarrow> (exn + Response) \<times> world" where
  "run_tool env tool params0 sid uid text w =
     (case execute_tool env tool params0 sid uid text (emit [Tool_call tool params0] w) of
        (Inl e, w1) \<Rightarrow> (Inl e, w1)
      | (Inr response, w1) \<Rightarrow>
          (Inr response, process_side_effects env (commands response) sid w1))"

definition policy_stage ::
    "'a app_env_scheme \<Rightarrow> string \<Rightarrow> string \<Rightarrow> string \<Rightarrow> world \<Rightarrow> (exn + Response) \<times> world" where
  "policy_stage env sid uid text w =
     (if mode (the_session (store w) sid) = NORMAL
      then
        (case detect_policy_from_text text of
           None \<Rightarrow> poi_selection_stage env sid uid text w
         | Some direct_policy \<Rightarrow>
             if direct_policy \<noteq> []
             then
               (case run_tool env (JStr ''change_driving_policy'')
                       (JObj [(''policy'', JStr direct_policy)]) sid uid text w of
                  (Inl e, w1) \<Rightarrow>
                    poi_selection_stage env sid uid text
                      (emit [Log WARNING ''[POLICY] Direct intent detection failed''] w1)
                | (Inr response, w1) \<Rightarrow> (Inr response, w1))
             else poi_selection_stage env sid uid text w)
      else poi_selection_stage env sid uid text w)"

text \<open>
  Stage 6, the classification of the message among the tools.  The confidence of the
  answer is whatever the LLM wrote; it is compared with 0.7 only when a tool id is there,
  and the comparison raises on a value that is no number.
\<close>

definition tool_stage ::
    "'a app_env_scheme \<Rightarrow> string \<Rightarrow> string \<Rightarrow> string \<Rightarrow> world \<Rightarrow> (exn + Response) \<times> world" where
  "tool_stage env sid uid text w =
     (let session = the_session (store w) sid;
          (tool_result, prompts) =
            classify_with_tools env text (build_tools_prompt env session)
              (context_string env session);
          w1 = emit (map LLM_call prompts) w
      in if truthy (tool_id tool_result)
         then
           (case py_ge (tool_confidence tool_result) float_0_7 of
              Inl e \<Rightarrow> (Inl e, w1)
            | Inr accepted \<Rightarrow>
                if accepted
                then run_tool env (tool_id tool_result) (params tool_result) sid uid text w1
                else policy_stage env sid uid text w1)
         else policy_stage env sid uid text w1)"

text \<open>Stage 5b, the matching of the message with the active options.\<close>

definition option_stage ::
    "'a app_env_scheme \<Rightarrow> string \<Rightarrow> string \<Rightarrow> string \<Rightarrow> world \<Rightarrow> (exn + Response) \<times> world" where
  "option_stage env sid uid text w =
     (if last_ui_options (the_session (store w) sid) \<noteq> []
      then
        (case match_option env text (last_ui_options (the_session (store w) sid)) of
           (Inl e, prompts) \<Rightarrow> (Inl e, emit (map LLM_call prompts) w)
         | (Inr match_result, prompts) \<Rightarrow>
             (let w1 = emit (map LLM_call prompts) w
              in if action match_result = JStr ''select'' \<and> truthy (selected_id match_result)
                 then
                   (let w2 = with_store
                               (\<lambda>st. update_session st sid
                                       [Set_last_ui_options [], Set_last_poi_suggestions []]) w1
                    in handle_ui_action env sid (selected_id match_result)
                         (emit [UI_action_call (selected_id match_result)] w2))
                 else if action match_result = JStr ''cancel''
                 then
                   (let w2 = with_store
                               (\<lambda>st. update_session st sid
                                       [Set_last_ui_options [], Set_last_poi_suggestions []]) w1
                    in handle_ui_action env sid (JStr ''cancel'')
                         (emit [UI_action_call (JStr ''cancel'')] w2))
                 else tool_stage env sid uid text w1))
      else tool_stage env sid uid text w)"

text \<open>\<^verbatim>\<open>handle_user_message\<close>, from the update of the session to stage 5.\<close>

definition effective_user_id :: "SessionState \<Rightarrow> string \<Rightarrow> string" where
  "effective_user_id session given =
     (case user_id session of
        Some u \<Rightarrow> if u \<noteq> [] then u else if given \<noteq> [] then given else ''unknown''
      | None \<Rightarrow> if given \<noteq> [] then given else ''unknown'')"

definition handle_user_message ::
    "'a app_env_scheme \<Rightarrow> UserMessage \<Rightarrow> world \<Rightarrow> (exn + Response) \<times> world" where
  "handle_user_message env msg w0 =
     (let sid = msg_session_id msg;
          w = with_store
                (\<lambda>st. update_session st sid
                        [Set_user_id (msg_user_id msg), Set_ride_id (msg_ride_id msg),
                         Set_city (msg_city msg)]) w0;
          uid = effective_user_id (the_session (store w) sid) (msg_user_id msg);
          text = strip (msg_text msg);
          analysis = analyze_text text
      in if is_simple_rejection analysis
         then (Inr (respond sid MsgRejected []),
               with_store
                 (\<lambda>st. clear_pending_question
                         (update_session st sid [Set_last_poi_suggestions []]) sid) w)
         else if is_simple_confirmation analysis
         then (Inr (respond sid MsgConfirmed []), w)
         else if is_help_request text
         then (Inr (respond sid MsgHelp quick_buttons), w)
         else if is_greeting text
         then (Inr (respond sid MsgGreeting quick_buttons), w)
         else if has_negation analysis
         then (Inr (respond sid MsgNegation negation_buttons), w)
         else option_stage env sid uid text w)"

text \<open>
  \<^verbatim>\<open>handle_pre_ride_message\<close>.  Its answers carry the field \<^verbatim>\<open>selected_poi\<close>: the
  payload of the first \<^verbatim>\<open>REROUTE_TO\<close> command of an executed tool, or \<^verbatim>\<open>None\<close>.  The
  thresholds are 0.6 for a tool and 0.5 for a need.
\<close>

record PreRideMessage =
  pre_session_id :: string
  pre_user_id :: string
  pre_city :: string
  pre_text :: string

record PreRideResponse = Response +
  selected_poi :: "(string \<times> json) list option"

definition with_selected_poi :: "Response \<Rightarrow> (string \<times> json) list option \<Rightarrow> PreRideResponse" where
  "with_selected_poi r selected =
     \<lparr> message = message r, ui_options = ui_options r, commands = commands r,
       response_session_id = response_session_id r, selected_poi = selected \<rparr>"

definition pre_ride_greeting_buttons :: "UIOption list" where
  "pre_ride_greeting_buttons =
     [\<lparr> opt_id = ''quick:fame'', opt_label = ''Ho fame'' \<rparr>,
      \<lparr> opt_id = ''quick:sete'', opt_label = ''Ho sete'' \<rparr>,
      \<lparr> opt_id = ''quick:shopping'', opt_label = ''Shopping'' \<rparr>]"

definition pre_ride_help_buttons :: "UIOption list" where
  "pre_ride_help_buttons =
     [\<lparr> opt_id = ''quick:fame'', opt_label = ''Cibo'' \<rparr>,
      \<lparr> opt_id = ''quick:sete'', opt_label = ''Bevande'' \<rparr>,
      \<lparr> opt_id = ''quick:shopping'', opt_label = ''Shopping'' \<rparr>]"

definition pre_ride_unclear_buttons :: "UIOption list" where
  "pre_ride_unclear_buttons =
     [\<lparr> opt_id = ''quick:fame'', opt_label = ''Ho fame'' \<rparr>,
      \<lparr> opt_id = ''quick:sete'', opt_label = ''Ho sete'' \<rparr>,
      \<lparr> opt_id = ''quick:malessere'', opt_label = ''Sto male'' \<rparr>,
      \<lparr> opt_id = ''quick:divertimento'', opt_label = ''Divertimento'' \<rparr>,
      \<lparr> opt_id = ''quick:shopping'', opt_label = ''Shopping'' \<rparr>]"

definition lift_pre_ride ::
    "(exn + Response) \<times> world \<Rightarrow> (exn + PreRideResponse) \<times> world" where
  "lift_pre_ride rw =
     (case rw of
        (Inl e, w) \<Rightarrow> (Inl e, w)
      | (Inr r, w) \<Rightarrow> (Inr (with_selected_poi r None), w))"

definition pre_ride_need_stage ::
    "'a app_env_scheme \<Rightarrow> string \<Rightarrow> string \<Rightarrow> string \<Rightarrow> world
      \<Rightarrow> (exn + PreRideResponse) \<times> world" where
  "pre_ride_need_stage env sid uid text w =
     (let (classify_result, prompts) =
            classify_need env (needs_order env) (subcategories_order env) text;
          w1 = emit (map LLM_call prompts) w
      in if truthy (need classify_result) \<and> float_ge (confidence classify_result) float_0_5
         then
           lift_pre_ride
             (handle_need_request env sid uid (need classify_result)
                (subcategory classify_result)
                (emit [Need_request_call (need classify_result) (subcategory classify_result)] w1))
         else (Inr (with_selected_poi (respond sid MsgPreRideUnclear pre_ride_unclear_buttons)
                      None),
               w1))"

definition pre_ride_tool_stage ::
    "'a app_env_scheme \<Rightarrow> string \<Rightarrow> string \<Rightarrow> string \<Rightarrow> world
      \<Rightarrow> (exn + PreRideResponse) \<times> world" where
  "pre_ride_tool_stage env sid uid text w =
     (let session = the_session (store w) sid;
          (tool_result, prompts) =
            classify_with_tools env text (build_tools_prompt env session)
              (''Modalit'' @ [CHR 0xE0] @ '': pre_ride (selezione destinazione)'');
          w1 = emit (map LLM_call prompts) w
      in if truthy (tool_id tool_result)
         then
           (case py_ge (tool_confidence tool_result) float_0_6 of
              Inl e \<Rightarrow> (Inl e, w1)
            | Inr accepted \<Rightarrow>
                if accepted
                then
                  (case execute_tool env (tool_id tool_result) (params tool_result) sid uid text
                          (emit [Tool_call (tool_id tool_result) (params tool_result)] w1) of
                     (Inl e, w2) \<Rightarrow> (Inl e, w2)
                   | (Inr result, w2) \<Rightarrow>
                       (Inr (with_selected_poi result
                               (case find (\<lambda>cmd. cmd_type cmd = ''REROUTE_TO'') (commands result) of
                                  None \<Rightarrow> None
                                | Some cmd \<Rightarrow> Some (payload cmd))),
                        w2))
                else pre_ride_need_stage env sid uid text w1)
         else pre_ride_need_stage env sid uid text w1)"

definition pre_ride_option_stage ::
    "'a app_env_scheme \<Rightarrow> string \<Rightarrow> string \<Rightarrow> string \<Rightarrow> world
      \<Rightarrow> (exn + PreRideResponse) \<times> world" where
  "pre_ride_option_stage env sid uid text w =
     (if last_ui_options (the_session (store w) sid) \<noteq> []
      then
        (case match_option env text (last_ui_options (the_session (store w) sid)) of
           (Inl e, prompts) \<Rightarrow> (Inl e, emit (map LLM_call prompts) w)
         | (Inr match_result, prompts) \<Rightarrow>
             (let w1 = emit (map LLM_call prompts) w
              in if action match_result = JStr ''select'' \<and> truthy (selected_id match_result)
                 then
                   (let w2 = with_store
                               (\<lambda>st. update_session st sid
                                       [Set_last_ui_options [], Set_last_poi_suggestions []]) w1
                    in lift_pre_ride
                         (handle_ui_action env sid (selected_id match_result)
                            (emit [UI_action_call (selected_id match_result)] w2)))
                 else if action match_result = JStr ''cancel''
                 then
                   (let w2 = with_store
                               (\<lambda>st. update_session st sid
                                       [Set_last_ui_options [], Set_last_poi_suggestions []]) w1
                    in lift_pre_ride
                         (handle_ui_action env sid (JStr ''cancel'')
                            (emit [UI_action_call (JStr ''cancel'')] w2)))
                 else pre_ride_tool_stage env sid uid text w1))
      else pre_ride_tool_stage env sid uid text w)"

definition handle_pre_ride_message ::
    "'a app_env_scheme \<Rightarrow> PreRideMessage \<Rightarrow> world \<Rightarrow> (exn + PreRideResponse) \<times> world" where
  "handle_pre_ride_message env msg w0 =
     (let sid = pre_session_id msg;
          uid = pre_user_id msg;
          text = strip (pre_text msg);
          w = with_store
                (\<lambda>st. update_session st sid
                        [Set_user_id uid, Set_city (pre_city msg), Set_mode PRE_RIDE]) w0
      in if is_greeting text
         then (Inr (with_selected_poi
                      (respond sid MsgPreRideGreeting pre_ride_greeting_buttons) None), w)
         else if is_help_request text
         then (Inr (with_selected_poi (respond sid MsgPreRideHelp pre_ride_help_buttons) None), w)
         else pre_ride_option_stage env sid uid text w)"

section \<open>Example runs of the pipeline\<close>

text \<open>
  A session with active options and suggested POIs, and the message \<^verbatim>\<open>no grazie\<close>.
\<close>

definition stale_world :: world where
  "stale_world =
     \<lparr> store = [''s1'' \<mapsto> (new_session ''s1'')
                  \<lparr> last_poi_suggestions := [''POI_001'', ''POI_002''],
                    last_ui_options := example_options \<rparr>],
       unity_connected = True, trace = [] \<rparr>"

definition no_thanks :: UserMessage where
  "no_thanks =
     \<lparr> msg_session_id = ''s1'', msg_user_id = ''u1'', msg_ride_id = ''r1'',
       msg_city = ''Palermo'', msg_text = ''no grazie'' \<rparr>"

text \<open>
  An environment whose LLM answers every prompt with a JSON object that names the tool
  \<^verbatim>\<open>music_play\<close> with a given confidence, written \<open>conf_text\<close> in the answer and
  parsed to \<open>conf\<close>; its tools and handlers answer with a fixed text.  The doubles
  0.69, 0.59 and 0.9.  A message that asks for music, in a ride and before it.
\<close>

definition tool_answer :: "string \<Rightarrow> string" where
  "tool_answer conf_text =
     ''{'' @ quoted ''tool_id'' @ '': '' @ quoted ''music_play'' @ '', ''
       @ quoted ''confidence'' @ '': '' @ conf_text @ ''}''"

definition tool_env :: "string \<Rightarrow> json \<Rightarrow> app_env" where
  "tool_env conf_text conf =
     \<lparr> call_llm = (\<lambda>p. Inr (tool_answer conf_text)),
       json_loads =
         (\<lambda>s. if s = tool_answer conf_text
              then Inr (JObj [(''tool_id'', JStr ''music_play''), (''confidence'', conf)])
              else Inl JSONDecodeError),
       float_of_str = (\<lambda>s. None),
       round_double = Finite,
       get_poi_by_id = (\<lambda>i. Inr None),
       record_visit = (\<lambda>u p. Inr ()),
       get_user_conditions = (\<lambda>u. Inr []),
       needs_order = valid_needs,
       subcategories_order = valid_subcategories,
       build_tools_prompt = (\<lambda>s. ''- music_play''),
       context_string = (\<lambda>s. ''Musica: SPENTA''),
       execute_tool = (\<lambda>t p sid uid m w. (Inr (respond sid (MsgText ''tool executed'') []), w)),
       handle_ui_action = (\<lambda>sid a w. (Inr (respond sid (MsgText ''option chosen'') []), w)),
       handle_need_request =
         (\<lambda>sid uid n s w. (Inr (respond sid (MsgText ''need handled'') []), w)) \<rparr>"

definition float_0_69 :: rat where
  "float_0_69 = 1553741871442821 / 2251799813685248"

definition float_0_59 :: rat where
  "float_0_59 = 5314247560297185 / 9007199254740992"

definition music_please :: UserMessage where
  "music_please =
     \<lparr> msg_session_id = ''s1'', msg_user_id = ''u1'', msg_ride_id = ''r1'',
       msg_city = ''Palermo'', msg_text = ''metti un po di musica'' \<rparr>"

definition music_please_pre_ride :: PreRideMessage where
  "music_please_pre_ride =
     \<lparr> pre_session_id = ''s1'', pre_user_id = ''u1'', pre_city = ''Palermo'',
       pre_text = ''metti un po di musica'' \<rparr>"

section \<open>Facts about the text primitives\<close>

lemma startswith_iff: "startswith s p \<longleftrightarrow> (\<exists>post. s = p @ post)"
  by (induction s p rule: startswith.induct) auto

lemma contains_iff: "contains s sub \<longleftrightarrow> (\<exists>pre post. s = pre @ sub @ post)"
proof (induction s)
  case Nil
  then show ?case by auto
next
  case (Cons c cs)
  show ?case
  proof
    assume "contains (c # cs) sub"
    then consider "startswith (c # cs) sub" | "contains cs sub" by auto
    then show "\<exists>pre post. c # cs = pre @ sub @ post"
    proof cases
      case 1
      then obtain post where "c # cs = [] @ sub @ post" by (auto simp: startswith_iff)
      then show ?thesis by blast
    next
      case 2
      then obtain pre post where "cs = pre @ sub @ post" using Cons.IH by blast
      then have "c # cs = (c # pre) @ sub @ post" by simp
      then show ?thesis by blast
    qed
  next
    assume "\<exists>pre post. c # cs = pre @ sub @ post"
    then obtain pre post where e: "c # cs = pre @ sub @ post" by blast
    show "contains (c # cs) sub"
    proof (cases pre)
      case Nil
      with e have "startswith (c # cs) sub" by (auto simp: startswith_iff)
      then show ?thesis by simp
    next
      case (Cons d pre')
      with e have "cs = pre' @ sub @ post" by simp
      then have "contains cs sub" using Cons.IH by blast
      then show ?thesis by simp
    qed
  qed
qed

lemma startswith_refl: "startswith s s"
  by (induction s) auto

lemma contains_refl: "contains s s"
  by (cases s) (simp_all add: startswith_refl)

lemma find_in: "find P xs = Some v \<Longrightarrow> v \<in> set xs \<and> P v"
  by (induction xs) (auto split: if_splits)

lemma find_unique:
  assumes "set order = set V" "x \<in> set V" "P x" "\<forall>y \<in> set V. P y \<longrightarrow> y = x"
  shows "find P order = Some x"
proof (cases "find P order")
  case None
  then have "\<forall>y \<in> set order. \<not> P y" by (simp add: find_None_iff)
  then have "\<not> P x" using assms(1,2) by blast
  with assms(3) show ?thesis by simp
next
  case (Some y)
  then have "y \<in> set order" "P y" by (simp_all add: find_in)
  then have "y = x" using assms(1,4) by blast
  with Some show ?thesis by simp
qed

lemma find_none:
  assumes "set order = set V" "\<forall>y \<in> set V. \<not> P y"
  shows "find P order = None"
proof -
  have "\<forall>y \<in> set order. \<not> P y" using assms by blast
  then show ?thesis by (simp add: find_None_iff)
qed



lemma lower_append: "lower (a @ b) = lower a @ lower b"
  by (simp add: lower_def)

lemma contains_lower:
  assumes "contains s sub"
  shows "contains (lower s) (lower sub)"
proof -
  obtain pre post where "s = pre @ sub @ post" using assms unfolding contains_iff by blast
  then have "lower s = lower pre @ lower sub @ lower post" by (simp add: lower_append)
  then show ?thesis unfolding contains_iff by blast
qed

lemma contains_trans: "contains a b \<Longrightarrow> contains b c \<Longrightarrow> contains a c"
  unfolding contains_iff
proof -
  assume "\<exists>pre post. a = pre @ b @ post" "\<exists>pre post. b = pre @ c @ post"
  then obtain p1 q1 p2 q2 where "a = p1 @ b @ q1" "b = p2 @ c @ q2" by blast
  then have "a = (p1 @ p2) @ c @ (q2 @ q1)" by simp
  then show "\<exists>pre post. a = pre @ c @ post" by blast
qed

lemma contains_strip: "contains s (strip s)"
proof -
  let ?d = "dropWhile is_space s"
  have 1: "s = takeWhile is_space s @ ?d" by simp
  have "rev ?d = takeWhile is_space (rev ?d) @ dropWhile is_space (rev ?d)" by simp
  then have "rev (rev ?d) = rev (takeWhile is_space (rev ?d) @ dropWhile is_space (rev ?d))"
    by (rule arg_cong)
  then have 2: "?d = strip s @ rev (takeWhile is_space (rev ?d))"
    by (simp only: rev_rev_ident rev_append strip_def)
  have "s = takeWhile is_space s @ strip s @ rev (takeWhile is_space (rev ?d))"
    by (rule subst [where P = "\<lambda>x. s = takeWhile is_space s @ x", OF 2 1])
  then show ?thesis unfolding contains_iff by blast
qed

lemma split_on_first:
  "split_on sep cur s = x # xs \<Longrightarrow> \<exists>post. cur @ s = x @ post"
proof (induction s arbitrary: cur)
  case Nil
  then show ?case by auto
next
  case (Cons c cs)
  show ?case
  proof (cases "c = sep")
    case True
    with Cons.prems show ?thesis by auto
  next
    case False
    with Cons.prems have "split_on sep (cur @ [c]) cs = x # xs" by simp
    from Cons.IH [OF this] show ?thesis by simp
  qed
qed

lemma re_alts_found: "re_alts ms prev s \<noteq> None \<longleftrightarrow> (\<exists>m \<in> set ms. m prev s \<noteq> None)"
  by (induction ms) (auto simp: re_alt_def split: option.splits)

lemma re_scan_found:
  "re_scan m prev s \<noteq> None \<longleftrightarrow>
     (\<exists>pre post. s = pre @ post \<and> m (if pre = [] then prev else Some (last pre)) post \<noteq> None)"
proof (induction s arbitrary: prev)
  case Nil
  then show ?case by auto
next
  case (Cons c cs)
  show ?case
  proof
    assume "re_scan m prev (c # cs) \<noteq> None"
    then consider "m prev (c # cs) \<noteq> None" | "re_scan m (Some c) cs \<noteq> None"
      by (auto split: option.splits)
    then show "\<exists>pre post. c # cs = pre @ post
        \<and> m (if pre = [] then prev else Some (last pre)) post \<noteq> None"
    proof cases
      case 1
      then have "c # cs = [] @ (c # cs) \<and> m (if [] = [] then prev else Some (last [])) (c # cs) \<noteq> None"
        by simp
      then show ?thesis by blast
    next
      case 2
      then obtain pre post where p: "cs = pre @ post"
          "m (if pre = [] then Some c else Some (last pre)) post \<noteq> None"
        using Cons.IH by blast
      then have "c # cs = (c # pre) @ post
          \<and> m (if c # pre = [] then prev else Some (last (c # pre))) post \<noteq> None"
        by auto
      then show ?thesis by blast
    qed
  next
    assume "\<exists>pre post. c # cs = pre @ post
        \<and> m (if pre = [] then prev else Some (last pre)) post \<noteq> None"
    then obtain pre post where p: "c # cs = pre @ post"
        "m (if pre = [] then prev else Some (last pre)) post \<noteq> None" by blast
    show "re_scan m prev (c # cs) \<noteq> None"
    proof (cases pre)
      case Nil
      with p show ?thesis by (auto split: option.splits)
    next
      case (Cons d pre')
      with p have "cs = pre' @ post"
          "m (if pre' = [] then Some c else Some (last pre')) post \<noteq> None"
        by auto
      then have "re_scan m (Some c) cs \<noteq> None" using Cons.IH by blast
      then show ?thesis by (auto split: option.splits)
    qed
  qed
qed

lemma re_b_found:
  "re_b k prev s \<noteq> None \<longleftrightarrow> word_before prev \<noteq> word_after s \<and> k prev s \<noteq> None"
  by (simp add: re_b_def)

lemma re_b_alts_found:
  "re_b (re_alts ms) prev s \<noteq> None \<longleftrightarrow> (\<exists>m \<in> set ms. re_b m prev s \<noteq> None)"
  unfolding re_b_found re_alts_found by blast

lemma re_search_b_alts:
  "re_search (re_b (re_alts ms)) s \<noteq> None \<longleftrightarrow> (\<exists>m \<in> set ms. re_search (re_b m) s \<noteq> None)"
  unfolding re_search_def re_scan_found re_b_alts_found by blast

lemma find_Some_ex:
  "\<exists>x \<in> set xs. P x \<Longrightarrow> \<exists>y. find P xs = Some y \<and> y \<in> set xs \<and> P y"
  by (induction xs) auto

section \<open>Simple confirmations\<close>










text \<open>
  C10. Whenever \<^verbatim>\<open>analyze_text(T)\<close> reports a simple confirmation, it reports no
  negation, and the text has at most 3 words separated by white space.
\<close>

theorem confirmation_excludes_negation:
  "is_simple_confirmation (analyze_text T) \<Longrightarrow>
     \<not> has_negation (analyze_text T) \<and> length (split (strip (lower T))) \<le> 3"
  by (auto simp: analyze_text_def Let_def split: if_splits)

theorem confirmation_excludes_negation_witness:
  "is_simple_confirmation (analyze_text ''ok'')
   \<and> \<not> has_negation (analyze_text ''ok'') \<and> length (split (strip (lower ''ok''))) \<le> 3"
proof -
  have h: "is_simple_confirmation (analyze_text ''ok'')" by code_simp
  from confirmation_excludes_negation [OF h] h show ?thesis by simp
qed

section \<open>Need sanitization\<close>

lemma clean_need_value_contained:
  assumes "clean_need_value order need_str = Some v"
  shows "contains (lower need_str) (lower v)"
proof (cases "need_str \<in> set valid_needs")
  case True
  with assms show ?thesis by (simp add: clean_need_value_def contains_refl)
next
  case False
  show ?thesis
  proof (cases "find (\<lambda>valid. contains (lower need_str) (lower valid)) order")
    case (Some w)
    with assms False have "w = v" by (simp add: clean_need_value_def)
    with Some show ?thesis by (auto dest: find_in)
  next
    case None
    with assms False obtain first0 rest where
      sp: "split_on (CHR ''|'') [] need_str = first0 # rest" and
      r: "(if strip first0 \<in> set valid_needs then Some (strip first0)
           else find (\<lambda>valid. contains (lower (strip first0)) (lower valid)) order) = Some v"
      by (auto simp: clean_need_value_def Let_def split: if_splits list.splits)
    from split_on_first [OF sp] have "contains need_str first0"
      unfolding contains_iff by (metis append_Nil)
    then have c: "contains (lower need_str) (lower (strip first0))"
      using contains_strip contains_trans contains_lower by blast
    from r have "contains (lower (strip first0)) (lower v)"
      by (auto simp: contains_refl split: if_splits dest: find_in)
    with c show ?thesis using contains_trans by blast
  qed
qed

lemma clean_need_value_valid:
  assumes "set order = set valid_needs" "clean_need_value order need_str = Some v"
  shows "v \<in> set valid_needs"
proof (cases "need_str \<in> set valid_needs")
  case True
  with assms show ?thesis by (simp add: clean_need_value_def)
next
  case False
  show ?thesis
  proof (cases "find (\<lambda>valid. contains (lower need_str) (lower valid)) order")
    case (Some w)
    with assms False have "w = v" by (simp add: clean_need_value_def)
    with Some assms(1) show ?thesis by (auto dest: find_in)
  next
    case None
    with assms False obtain first0 where
      r: "(if strip first0 \<in> set valid_needs then Some (strip first0)
           else find (\<lambda>valid. contains (lower (strip first0)) (lower valid)) order) = Some v"
      by (auto simp: clean_need_value_def Let_def split: if_splits list.splits)
    then show ?thesis using assms(1) by (auto split: if_splits dest: find_in)
  qed
qed

lemma shopping_null:
  assumes "set order = set valid_needs"
  shows "clean_need_value order ''Shopping|null'' = Some ''Shopping''"
proof -
  have "find (\<lambda>valid. contains (lower ''Shopping|null'') (lower valid)) order = Some ''Shopping''"
    by (rule find_unique [OF assms]; code_simp)
  moreover have "''Shopping|null'' \<notin> set valid_needs" by code_simp
  ultimately show ?thesis by (simp add: clean_need_value_def)
qed

lemma banana:
  assumes "set order = set valid_needs"
  shows "clean_need_value order ''Banana'' = None"
proof -
  have "find (\<lambda>valid. contains (lower ''Banana'') (lower valid)) order = None"
    by (rule find_none [OF assms]; code_simp)
  moreover have "''Banana'' \<notin> set valid_needs" by code_simp
  moreover have "\<not> contains ''Banana'' ''|''" by code_simp
  ultimately show ?thesis by (simp add: clean_need_value_def)
qed

text \<open>
  Whatever the iteration order of the set of valid needs:
  \<^verbatim>\<open>_clean_need_value("Shopping|null")\<close> is \<^verbatim>\<open>"Shopping"\<close>,
  \<^verbatim>\<open>_clean_need_value("Banana")\<close> is \<^verbatim>\<open>None\<close>, and for every input the
  result is \<^verbatim>\<open>None\<close> or one of Fame, Sete, Malessere, Divertimento, Shopping, and
  then that need occurs in the input as a substring, case-insensitively.
\<close>

lemma clean_need_value_allow_listed:
  assumes "set order = set valid_needs"
  shows "clean_need_value order ''Shopping|null'' = Some ''Shopping''
       \<and> clean_need_value order ''Banana'' = None
       \<and> (clean_need_value order need_str = None
          \<or> (\<exists>v \<in> set valid_needs. clean_need_value order need_str = Some v
                \<and> contains (lower need_str) (lower v)))"
proof -
  have "clean_need_value order need_str = None
        \<or> (\<exists>v \<in> set valid_needs. clean_need_value order need_str = Some v
              \<and> contains (lower need_str) (lower v))"
  proof (cases "clean_need_value order need_str")
    case None
    then show ?thesis by simp
  next
    case (Some v)
    with clean_need_value_valid [OF assms Some] clean_need_value_contained [OF Some]
    show ?thesis by simp
  qed
  with shopping_null [OF assms] banana [OF assms] show ?thesis by simp
qed

lemma clean_need_value_allow_listed_example:
  "clean_need_value valid_needs ''Shopping|null'' = Some ''Shopping''
   \<and> clean_need_value valid_needs ''Banana'' = None
   \<and> clean_need_value valid_needs ''ho FAME|sete'' = Some ''Fame''"
proof -
  have e: "clean_need_value valid_needs ''ho FAME|sete'' = Some ''Fame''" by code_simp
  show ?thesis
    using clean_need_value_allow_listed [of valid_needs "''ho FAME|sete''"] e by simp
qed

text \<open>
  C9. The need that \<^verbatim>\<open>_clean_need_value\<close> extracts from a compound is not the first
  value of the compound: the loop over the set of valid needs runs before the branch for
  \<^verbatim>\<open>|\<close>, so from \<^verbatim>\<open>Fame|Sete\<close>, which the docstring maps to \<^verbatim>\<open>Fame\<close>, the
  result is the one of Fame and Sete that comes first in the iteration order of the set:
  Sete under an order that begins with Sete, Fame under one that begins with Fame.  The
  same holds for \<^verbatim>\<open>Sete|Fame\<close>.
\<close>

theorem clean_need_value_compound_by_order:
  "clean_need_value [''Sete'', ''Fame'', ''Malessere'', ''Divertimento'', ''Shopping''] ''Fame|Sete''
     = Some ''Sete''
   \<and> clean_need_value [''Fame'', ''Sete'', ''Malessere'', ''Divertimento'', ''Shopping''] ''Fame|Sete''
     = Some ''Fame''
   \<and> clean_need_value [''Fame'', ''Sete'', ''Malessere'', ''Divertimento'', ''Shopping''] ''Sete|Fame''
     = Some ''Fame''"
  by code_simp

section \<open>Volume\<close>

lemma the_session_put [simp]: "the_session (put_session st sid s) sid = s"
  by (simp add: the_session_def put_session_def get_session_def)

lemma the_session_get_session:
  "the_session (fst (get_session st sid)) sid' = the_session st sid'"
  by (simp add: the_session_def get_session_def split: option.splits)

lemma snd_get_session: "snd (get_session st sid) = the_session st sid"
  by (simp add: the_session_def)

lemma clamp_number:
  "num_of v \<noteq> None \<Longrightarrow>
     \<exists>v'. and_then (py_min_int 10 v) (py_max_int 1) = Inr v' \<and> volume_in_range v'"
  by (cases v rule: num_of.cases)
     (auto simp: and_then_def py_min_int_def py_max_int_def float_lt_def volume_in_range_def
           split: pyfloat.splits)

lemma clamp_other:
  "num_of v = None \<Longrightarrow> and_then (py_min_int 10 v) (py_max_int 1) = Inl TypeError"
  by (simp add: and_then_def py_min_int_def)

lemma clamp_int:
  "and_then (py_min_int 10 (JInt i)) (py_max_int 1) = Inr (JInt (max 1 (min 10 i)))"
  by (simp add: and_then_def py_min_int_def py_max_int_def float_lt_def)

lemma add_number:
  "num_of v \<noteq> None \<Longrightarrow> \<exists>s. py_add_int rnd v d = Inr s \<and> num_of s \<noteq> None"
  by (cases "(rnd, v, d)" rule: py_add_int.cases) auto

lemma in_range_number: "volume_in_range v \<Longrightarrow> num_of v \<noteq> None"
  by (cases v) (auto simp: volume_in_range_def)

lemma set_volume_number:
  assumes "num_of v \<noteq> None"
  shows "\<exists>v'. snd (set_volume st sid v) = Inr v'
           \<and> the_session (fst (set_volume st sid v)) sid = (the_session st sid)\<lparr>music_volume := v'\<rparr>
           \<and> volume_in_range v'"
proof -
  obtain v' where v': "and_then (py_min_int 10 v) (py_max_int 1) = Inr v'" "volume_in_range v'"
    using clamp_number [OF assms] by blast
  show ?thesis
    using v' by (simp add: set_volume_def split_beta snd_get_session)
qed

lemma set_volume_other:
  assumes "num_of v = None"
  shows "snd (set_volume st sid v) = Inl TypeError
           \<and> the_session (fst (set_volume st sid v)) sid' = the_session st sid'"
  using clamp_other [OF assms]
  by (simp add: set_volume_def split_beta the_session_get_session)

lemma adjust_volume_number:
  assumes "num_of (music_volume (the_session st sid)) \<noteq> None"
  shows "\<exists>v'. snd (adjust_volume rnd st sid d) = Inr v'
           \<and> the_session (fst (adjust_volume rnd st sid d)) sid
               = (the_session st sid)\<lparr>music_volume := v'\<rparr>
           \<and> volume_in_range v'"
proof -
  obtain s where s: "py_add_int rnd (music_volume (the_session st sid)) d = Inr s" "num_of s \<noteq> None"
    using add_number [OF assms] by blast
  obtain v' where v': "and_then (py_min_int 10 s) (py_max_int 1) = Inr v'" "volume_in_range v'"
    using clamp_number [OF s(2)] by blast
  show ?thesis
    using s(1) v' by (simp add: adjust_volume_def split_beta snd_get_session and_then_def)
qed

lemma adjust_volume_int:
  "music_volume (the_session st sid) = JInt i \<Longrightarrow>
     snd (adjust_volume rnd st sid d) = Inr (JInt (max 1 (min 10 (i + d))))
     \<and> music_volume (the_session (fst (adjust_volume rnd st sid d)) sid)
         = JInt (max 1 (min 10 (i + d)))"
  using clamp_int [of "i + d"]
  by (simp add: adjust_volume_def split_beta snd_get_session and_then_def)

lemma volume_tool_number:
  assumes "num_of (volume_argument t st sid ps) \<noteq> None"
  shows "\<exists>r. snd (volume_tool_execute rnd t st sid ps) = Inr r
           \<and> commands r =
               [\<lparr> cmd_type = ''SET_VOLUME'',
                  payload = [(''volume'',
                    music_volume (the_session (fst (volume_tool_execute rnd t st sid ps)) sid))] \<rparr>]
           \<and> volume_in_range
               (music_volume (the_session (fst (volume_tool_execute rnd t st sid ps)) sid))"
proof (cases t)
  case Volume_up
  then have "num_of (music_volume (the_session st sid)) \<noteq> None"
    using assms by (simp add: volume_argument_def)
  from adjust_volume_number [OF this, of rnd 2] obtain v' where
    "snd (adjust_volume rnd st sid 2) = Inr v'"
    "the_session (fst (adjust_volume rnd st sid 2)) sid = (the_session st sid)\<lparr>music_volume := v'\<rparr>"
    "volume_in_range v'" by blast
  then show ?thesis using Volume_up
    by (cases "adjust_volume rnd st sid 2") (simp add: volume_up_execute_def set_volume_cmd_def)
next
  case Volume_down
  then have "num_of (music_volume (the_session st sid)) \<noteq> None"
    using assms by (simp add: volume_argument_def)
  from adjust_volume_number [OF this, of rnd "- 2"] obtain v' where
    "snd (adjust_volume rnd st sid (- 2)) = Inr v'"
    "the_session (fst (adjust_volume rnd st sid (- 2))) sid = (the_session st sid)\<lparr>music_volume := v'\<rparr>"
    "volume_in_range v'" by blast
  then show ?thesis using Volume_down
    by (cases "adjust_volume rnd st sid (- 2)") (simp add: volume_down_execute_def set_volume_cmd_def)
next
  case Volume_set
  let ?v = "case map_of ps ''volume'' of None \<Rightarrow> JInt 5 | Some v \<Rightarrow> v"
  have "num_of ?v \<noteq> None"
    using assms Volume_set by (simp add: volume_argument_def)
  from set_volume_number [OF this, of st sid] obtain v' where
    "snd (set_volume st sid ?v) = Inr v'"
    "the_session (fst (set_volume st sid ?v)) sid = (the_session st sid)\<lparr>music_volume := v'\<rparr>"
    "volume_in_range v'" by blast
  then show ?thesis using Volume_set
    by (cases "set_volume st sid ?v") (simp add: volume_set_execute_def set_volume_cmd_def)
qed

lemma adjust_volume_other:
  assumes "num_of (music_volume (the_session st sid)) = None"
  shows "snd (adjust_volume rnd st sid d) = Inl TypeError
           \<and> the_session (fst (adjust_volume rnd st sid d)) sid' = the_session st sid'"
proof -
  have "py_add_int rnd (music_volume (the_session st sid)) d = Inl TypeError"
    using assms by (cases "(rnd, music_volume (the_session st sid), d)" rule: py_add_int.cases) auto
  then show ?thesis
    by (simp add: adjust_volume_def split_beta snd_get_session and_then_def the_session_get_session)
qed

lemma volume_tool_other:
  assumes "num_of (volume_argument t st sid ps) = None"
  shows "snd (volume_tool_execute rnd t st sid ps) = Inl TypeError
       \<and> the_session (fst (volume_tool_execute rnd t st sid ps)) sid' = the_session st sid'"
proof (cases t)
  case Volume_up
  then have "num_of (music_volume (the_session st sid)) = None"
    using assms by (simp add: volume_argument_def)
  from adjust_volume_other [OF this, of rnd 2 sid'] show ?thesis using Volume_up
    by (cases "adjust_volume rnd st sid 2") (simp add: volume_up_execute_def)
next
  case Volume_down
  then have "num_of (music_volume (the_session st sid)) = None"
    using assms by (simp add: volume_argument_def)
  from adjust_volume_other [OF this, of rnd "- 2" sid'] show ?thesis using Volume_down
    by (cases "adjust_volume rnd st sid (- 2)") (simp add: volume_down_execute_def)
next
  case Volume_set
  let ?v = "case map_of ps ''volume'' of None \<Rightarrow> JInt 5 | Some v \<Rightarrow> v"
  have "num_of ?v = None"
    using assms Volume_set by (simp add: volume_argument_def)
  from set_volume_other [OF this, of st sid sid'] show ?thesis using Volume_set
    by (cases "set_volume st sid ?v") (simp add: volume_set_execute_def)
qed

text \<open>
  C5. \<^verbatim>\<open>set_volume(0)\<close> stores 1, \<^verbatim>\<open>set_volume(11)\<close> stores 10, and
  \<^verbatim>\<open>adjust_volume\<close> by -5 from a stored volume of 1 stores 1.  The volume of a new
  session is in range.  \<^verbatim>\<open>set_volume\<close> of a number (an integer, a float or a
  boolean) returns the value it stores, which lies between 1 and 10; of any other value
  (a string, \<^verbatim>\<open>None\<close>, a list, a dictionary) it raises \<^verbatim>\<open>TypeError\<close> and leaves
  the session as it was.  \<^verbatim>\<open>adjust_volume\<close> on a stored number returns the value it
  stores, between 1 and 10.  Each of the tools \<^verbatim>\<open>volume_up\<close>, \<^verbatim>\<open>volume_down\<close>
  and \<^verbatim>\<open>volume_set\<close>, when the value it clamps is a number, returns exactly one
  command, a \<^verbatim>\<open>SET_VOLUME\<close> whose payload is the volume stored in the session after
  the call, and that volume lies between 1 and 10; when the value is no number the tool
  raises \<^verbatim>\<open>TypeError\<close>, returns no command and leaves the session as it was.
\<close>

theorem volume_clamped_and_reported:
  "music_volume (the_session (fst (set_volume st sid (JInt 0))) sid) = JInt 1
   \<and> music_volume (the_session (fst (set_volume st sid (JInt 11))) sid) = JInt 10
   \<and> music_volume (the_session (fst (adjust_volume rnd
         (put_session st sid ((the_session st sid)\<lparr>music_volume := JInt 1\<rparr>)) sid (- 5))) sid)
       = JInt 1
   \<and> volume_in_range (music_volume (new_session sid))
   \<and> (num_of v \<noteq> None \<longrightarrow>
        (\<exists>v'. snd (set_volume st sid v) = Inr v'
            \<and> music_volume (the_session (fst (set_volume st sid v)) sid) = v'
            \<and> volume_in_range v'))
   \<and> (num_of v = None \<longrightarrow>
        snd (set_volume st sid v) = Inl TypeError
        \<and> the_session (fst (set_volume st sid v)) sid = the_session st sid)
   \<and> (num_of (music_volume (the_session st sid)) \<noteq> None \<longrightarrow>
        (\<exists>v'. snd (adjust_volume rnd st sid d) = Inr v'
            \<and> music_volume (the_session (fst (adjust_volume rnd st sid d)) sid) = v'
            \<and> volume_in_range v'))
   \<and> (num_of (volume_argument t st sid tool_params) \<noteq> None \<longrightarrow>
        (\<exists>r. snd (volume_tool_execute rnd t st sid tool_params) = Inr r
            \<and> commands r =
                [\<lparr> cmd_type = ''SET_VOLUME'',
                   payload = [(''volume'',
                     music_volume
                       (the_session (fst (volume_tool_execute rnd t st sid tool_params)) sid))] \<rparr>]
            \<and> volume_in_range
                (music_volume
                   (the_session (fst (volume_tool_execute rnd t st sid tool_params)) sid))))
   \<and> (num_of (volume_argument t st sid tool_params) = None \<longrightarrow>
        snd (volume_tool_execute rnd t st sid tool_params) = Inl TypeError
        \<and> the_session (fst (volume_tool_execute rnd t st sid tool_params)) sid
            = the_session st sid)"
proof -
  have e1: "music_volume (the_session (fst (set_volume st sid (JInt 0))) sid) = JInt 1"
    using clamp_int [of 0] by (simp add: set_volume_def split_beta)
  have e2: "music_volume (the_session (fst (set_volume st sid (JInt 11))) sid) = JInt 10"
    using clamp_int [of 11] by (simp add: set_volume_def split_beta)
  have e3: "music_volume (the_session (fst (adjust_volume rnd
         (put_session st sid ((the_session st sid)\<lparr>music_volume := JInt 1\<rparr>)) sid (- 5))) sid)
       = JInt 1"
    using adjust_volume_int [of "put_session st sid ((the_session st sid)\<lparr>music_volume := JInt 1\<rparr>)"
        sid 1 rnd "- 5"] by simp
  have e4: "volume_in_range (music_volume (new_session sid))"
    by (simp add: new_session_def volume_in_range_def)
  have s1: "num_of v \<noteq> None \<Longrightarrow>
        (\<exists>v'. snd (set_volume st sid v) = Inr v'
            \<and> music_volume (the_session (fst (set_volume st sid v)) sid) = v'
            \<and> volume_in_range v')"
    using set_volume_number [of v st sid] by auto
  have a1: "num_of (music_volume (the_session st sid)) \<noteq> None \<Longrightarrow>
        (\<exists>v'. snd (adjust_volume rnd st sid d) = Inr v'
            \<and> music_volume (the_session (fst (adjust_volume rnd st sid d)) sid) = v'
            \<and> volume_in_range v')"
    using adjust_volume_number [of st sid rnd d] by auto
  show ?thesis
    using e1 e2 e3 e4 s1 a1 set_volume_other [of v st sid sid]
      volume_tool_number [of t st sid tool_params rnd]
      volume_tool_other [of t st sid tool_params rnd sid]
    by blast
qed

text \<open>
  The tool \<^verbatim>\<open>volume_set\<close> with the parameter \<^verbatim>\<open>{"volume": "8"}\<close>, a string as
  an LLM may answer it, raises \<^verbatim>\<open>TypeError\<close> and emits no command.
\<close>

theorem volume_set_string_counterexample:
  "snd (volume_tool_execute (\<lambda>r. Finite r) Volume_set Map.empty ''s1'' [(''volume'', JStr ''8'')])
     = Inl TypeError"
  by code_simp

text \<open>
  The volume 7.5 is stored as it is; \<^verbatim>\<open>volume_set\<close> with the parameter 11 stores and
  reports 10; \<^verbatim>\<open>volume_up\<close> on a new session stores and reports 7.
\<close>

theorem volume_clamped_and_reported_witness:
  "(\<exists>v'. snd (set_volume Map.empty ''s1'' (JFloat (Finite (15 / 2)))) = Inr v'
       \<and> music_volume (the_session (fst (set_volume Map.empty ''s1'' (JFloat (Finite (15 / 2))))) ''s1'')
           = v'
       \<and> volume_in_range v')
   \<and> (\<exists>r. snd (volume_tool_execute (\<lambda>r. Finite r) Volume_set Map.empty ''s1'' [(''volume'', JInt 11)])
             = Inr r
         \<and> commands r =
             [\<lparr> cmd_type = ''SET_VOLUME'',
                payload = [(''volume'',
                  music_volume (the_session (fst (volume_tool_execute (\<lambda>r. Finite r) Volume_set
                    Map.empty ''s1'' [(''volume'', JInt 11)])) ''s1''))] \<rparr>]
         \<and> volume_in_range
             (music_volume (the_session (fst (volume_tool_execute (\<lambda>r. Finite r) Volume_set
                Map.empty ''s1'' [(''volume'', JInt 11)])) ''s1'')))
   \<and> snd (volume_tool_execute (\<lambda>r. Finite r) Volume_up Map.empty ''s1'' [])
       = Inr \<lparr> message = MsgVolumeUp (JInt 7), ui_options = [],
               commands = [\<lparr> cmd_type = ''SET_VOLUME'', payload = [(''volume'', JInt 7)] \<rparr>] \<rparr>"
proof -
  have h1: "num_of (JFloat (Finite (15 / 2))) \<noteq> None" by simp
  have h2: "num_of (volume_argument Volume_set Map.empty ''s1'' [(''volume'', JInt 11)]) \<noteq> None"
    by (simp add: volume_argument_def)
  have h3: "snd (volume_tool_execute (\<lambda>r. Finite r) Volume_up Map.empty ''s1'' [])
       = Inr \<lparr> message = MsgVolumeUp (JInt 7), ui_options = [],
               commands = [\<lparr> cmd_type = ''SET_VOLUME'', payload = [(''volume'', JInt 7)] \<rparr>] \<rparr>"
    by code_simp
  show ?thesis
    using volume_clamped_and_reported
            [of Map.empty "''s1''" "\<lambda>r. Finite r" "JFloat (Finite (15 / 2))" 2 Volume_set
                "[(''volume'', JInt 11)]"]
          h1 h2 h3
    by blast
qed

section \<open>Option matching\<close>

lemma cancel_pattern_words:
  "re_search cancel_pattern s \<noteq> None \<longleftrightarrow> (\<exists>w \<in> set cancel_words. search_word w s)"
  unfolding cancel_pattern_def re_search_b_alts
  by (simp add: cancel_words_def search_word_def)

lemma match_option_empty: "match_option env msg [] = (Inr MatchResult_unclear, [])"
  by (simp add: match_option_def)


lemma match_option_precheck_cancel:
  "\<exists>w \<in> set cancel_words. search_word w (lower msg) \<Longrightarrow>
     match_option_precheck True msg options
       = Inr (Some \<lparr> selected_id = JNull, action = JStr ''cancel'' \<rparr>)"
  using cancel_pattern_words [of "lower msg"] by (simp add: match_option_precheck_def)



text \<open>
  C4. For an empty list of options \<^verbatim>\<open>match_option\<close> answers \<^verbatim>\<open>unclear\<close> with no
  selection and no call of the LLM.  For a non-empty list the pre-check never answers:
  it reads the variable \<^verbatim>\<open>re\<close>, which the later \<^verbatim>\<open>import re\<close> of the function
  makes local and which is unbound when the pre-check runs, so the block raises, the
  exception is swallowed and the LLM is asked.  On the message \<^verbatim>\<open>annulla\<close> with three
  options the block as written, with \<^verbatim>\<open>re\<close> bound, gives \<^verbatim>\<open>cancel\<close>;
  \<^verbatim>\<open>match_option\<close> sends the prompt to the LLM and returns what the LLM answers, here
  the selection of the first option.  On \<^verbatim>\<open>il secondo\<close> the block as written selects
  the second option; \<^verbatim>\<open>match_option\<close> asks the LLM and, the LLM being down, answers
  \<^verbatim>\<open>unclear\<close>.
\<close>

theorem match_option_precheck_never_answers:
  "match_option env msg [] = (Inr \<lparr> selected_id = JNull, action = JStr ''unclear'' \<rparr>, [])
   \<and> match_option_precheck True ''annulla'' example_options
       = Inr (Some \<lparr> selected_id = JNull, action = JStr ''cancel'' \<rparr>)
   \<and> match_option llm_picks_first ''annulla'' example_options
       = (Inr \<lparr> selected_id = JStr ''poi:POI_001'', action = JStr ''select'' \<rparr>,
          [OptionPrompt example_listing ''annulla''])
   \<and> match_option_precheck True ''il secondo'' example_options
       = Inr (Some \<lparr> selected_id = JStr ''poi:POI_002'', action = JStr ''select'' \<rparr>)
   \<and> match_option llm_down ''il secondo'' example_options
       = (Inr \<lparr> selected_id = JNull, action = JStr ''unclear'' \<rparr>,
          [OptionPrompt example_listing ''il secondo''])"
proof -
  have 1: "match_option env msg [] = (Inr \<lparr> selected_id = JNull, action = JStr ''unclear'' \<rparr>, [])"
    by (simp add: match_option_empty MatchResult_unclear_def)
  have 2: "match_option_precheck True ''annulla'' example_options
       = Inr (Some \<lparr> selected_id = JNull, action = JStr ''cancel'' \<rparr>)" by code_simp
  have 3: "match_option llm_picks_first ''annulla'' example_options
       = (Inr \<lparr> selected_id = JStr ''poi:POI_001'', action = JStr ''select'' \<rparr>,
          [OptionPrompt example_listing ''annulla''])" by code_simp
  have 4: "match_option_precheck True ''il secondo'' example_options
       = Inr (Some \<lparr> selected_id = JStr ''poi:POI_002'', action = JStr ''select'' \<rparr>)" by code_simp
  have 5: "match_option llm_down ''il secondo'' example_options
       = (Inr \<lparr> selected_id = JNull, action = JStr ''unclear'' \<rparr>,
          [OptionPrompt example_listing ''il secondo''])" by code_simp
  from 1 2 3 4 5 show ?thesis by simp
qed

section \<open>Failures of the LLM and of its answers\<close>

















section \<open>Driving-policy tool and side effects\<close>

lemma lower_upper_char: "\<forall>c. lower_char (upper_char c) = lower_char c"
  by code_simp

lemma lower_lower_char: "\<forall>c. lower_char (lower_char c) = lower_char c"
  by code_simp

lemma lower_lower: "lower (lower s) = lower s"
  by (simp add: lower_def lower_lower_char)

lemma lower_capitalize:
  assumes "capitalize p \<in> set valid_policies"
  shows "lower (capitalize p) = lower p"
proof (cases p)
  case Nil
  then show ?thesis by (simp add: capitalize_def)
next
  case (Cons c cs)
  have "c \<noteq> CHR 0xDF"
    using assms Cons by (auto simp: capitalize_def valid_policies_def)
  then show ?thesis
    using Cons lower_upper_char lower_lower [of cs]
    by (simp add: capitalize_def lower_def)
qed

lemma sent_emit:
  "sent_to_unity (emit es w) =
     sent_to_unity w @ concat (map (\<lambda>e. case e of Sent_to_unity m \<Rightarrow> [m] | _ \<Rightarrow> []) es)"
  by (simp add: sent_to_unity_def emit_def)

lemma sent_store [simp]: "sent_to_unity (w\<lparr>store := st\<rparr>) = sent_to_unity w"
  by (simp add: sent_to_unity_def)

lemma emit_fields [simp]:
  "store (emit es w) = store w" "unity_connected (emit es w) = unity_connected w"
  by (simp_all add: emit_def)

lemma forced_policy_reason_frame:
  "forced_policy_reason env uid w = (r, w') \<Longrightarrow>
     store w' = store w \<and> unity_connected w' = unity_connected w \<and>
     sent_to_unity w' = sent_to_unity w"
  by (auto simp: forced_policy_reason_def sent_emit split: sum.splits option.splits if_splits)

lemma effective_policy_reason:
  "snd (get_effective_policy requested conditions) =
     (if ''pregnancy'' \<in> set conditions
      then Some (''Per la tua sicurezza, utilizziamo la modalit'' @ [CHR 0xE0] @ '' Comfort'')
      else None)"
proof (induction conditions)
  case Nil
  then show ?case by (simp add: get_effective_policy_def)
next
  case (Cons c cs)
  then show ?case
    by (auto simp: get_effective_policy_def CONDITION_POLICY_RULES_def split: option.splits)
qed

lemma forced_policy_reason_none:
  "fst (forced_policy_reason env uid w) = None \<longleftrightarrow>
     (\<forall>conditions. get_user_conditions env uid = Inr conditions
        \<longrightarrow> ''pregnancy'' \<notin> set conditions)"
  by (cases "get_user_conditions env uid")
     (auto simp: forced_policy_reason_def effective_policy_reason)

lemma forced_policy_reason_some:
  "get_user_conditions env uid = Inr conditions \<Longrightarrow> ''pregnancy'' \<in> set conditions \<Longrightarrow>
     forced_policy_reason env uid w
       = (Some (''Per la tua sicurezza, utilizziamo la modalit'' @ [CHR 0xE0] @ '' Comfort''), w)"
  by (auto simp: forced_policy_reason_def effective_policy_reason)

lemma valid_truthy: "capitalize p \<in> set valid_policies \<Longrightarrow> truthy (JStr p)"
  by (auto simp: capitalize_def valid_policies_def)

text \<open>
  C8. \<^verbatim>\<open>ChangeDrivingPolicyTool.execute\<close>, for a user whom no condition forces to a
  policy, a requested policy \<open>p\<close> (the parameter, or the policy detected in the message)
  that is valid once capitalized, and a session whose current policy is a string.  The
  tool returns a result with no commands and no options, and every session of the store
  is as it was, so the field \<^verbatim>\<open>driving_policy\<close> is not modified.  When \<open>p\<close> equals
  the current policy case-insensitively, the message says that the current policy is
  already active and nothing is sent to the simulator.  Otherwise, when the simulator is
  connected, one \<^verbatim>\<open>cambio_policy\<close> request with the capitalized policy is sent and
  the message says so; when it is not connected nothing is sent and the message says
  that the taxi is not connected.
\<close>

theorem change_driving_policy_frame:
  assumes free: "\<forall>conditions. get_user_conditions env (ctx_user_id ctx) = Inr conditions
                   \<longrightarrow> ''pregnancy'' \<notin> set conditions"
      and req: "requested_policy ctx = JStr p"
      and valid: "capitalize p \<in> set valid_policies"
      and cur: "driving_policy (the_session (store w) (ctx_session_id ctx)) = JStr current"
  shows "\<exists>r w'.
           change_driving_policy_execute env ctx w = Inr (r, w') \<and>
           commands r = [] \<and> ui_options r = [] \<and>
           (\<forall>sid. the_session (store w') sid = the_session (store w) sid) \<and>
           (if lower current = lower p
            then message r = MsgPolicyAlreadyActive current \<and>
                 sent_to_unity w' = sent_to_unity w
            else if unity_connected w
            then message r = MsgPolicyRequested (capitalize p) \<and>
                 sent_to_unity w' =
                   sent_to_unity w @ [Cambio_policy (ctx_session_id ctx) (capitalize p)]
            else message r = MsgTaxiNotConnected \<and> sent_to_unity w' = sent_to_unity w)"
proof -
  have "fst (forced_policy_reason env (ctx_user_id ctx) w) = None"
    using free by (simp only: forced_policy_reason_none)
  then obtain w1 where f: "forced_policy_reason env (ctx_user_id ctx) w = (None, w1)"
    by (cases "forced_policy_reason env (ctx_user_id ctx) w") simp
  have fr: "store w1 = store w" "unity_connected w1 = unity_connected w"
           "sent_to_unity w1 = sent_to_unity w"
    using forced_policy_reason_frame [OF f] by simp_all
  obtain st1 s where g: "get_session (store w) (ctx_session_id ctx) = (st1, s)"
    by (cases "get_session (store w) (ctx_session_id ctx)")
  have s: "driving_policy s = JStr current"
    using g cur by (simp add: the_session_def)
  have st1: "\<And>sid. the_session st1 sid = the_session (store w) sid"
    using the_session_get_session [of "store w" "ctx_session_id ctx"] g by simp
  have v: "capitalize p \<in> set valid_policies \<longleftrightarrow> True" using valid by simp
  show ?thesis
    unfolding change_driving_policy_execute_def
    using valid_truthy [OF valid]
    by (simp add: f req fr g s st1 v lower_capitalize [OF valid] plain_def sent_emit Let_def
        del: truthy.simps)
qed

text \<open>
  The policy Comfort is requested in a new session, whose policy is Sport, while the
  simulator is not connected: no request is sent, the answer is that the taxi is not
  connected.
\<close>

theorem change_driving_policy_disconnected_counterexample:
  "change_driving_policy_execute example_env comfort_request (fresh_world False)
     = Inr (\<lparr> message = MsgTaxiNotConnected, ui_options = [], commands = [] \<rparr>,
            \<lparr> store = [''s1'' \<mapsto> new_session ''s1''], unity_connected = False,
              trace = [Log WARNING ''[TAXI_TOOL] Unity not connected, cannot change policy''] \<rparr>)"
  by (simp add: change_driving_policy_execute_def example_env_def comfort_request_def
      fresh_world_def forced_policy_reason_def requested_policy_def plain_def emit_def
      get_session_def Let_def valid_policies_def new_session_def)
     code_simp


text \<open>
  The same request with the simulator connected: the request for Comfort is sent, and the
  policy of the session is still Sport.
\<close>

theorem change_driving_policy_frame_witness:
  "\<exists>r w'. change_driving_policy_execute example_env comfort_request (fresh_world True) = Inr (r, w')
      \<and> commands r = [] \<and> ui_options r = []
      \<and> message r = MsgPolicyRequested ''Comfort''
      \<and> sent_to_unity w' = [Cambio_policy ''s1'' ''Comfort'']
      \<and> driving_policy (the_session (store w') ''s1'') = JStr ''Sport''"
proof -
  have h1: "\<forall>conditions. get_user_conditions example_env (ctx_user_id comfort_request) = Inr conditions
              \<longrightarrow> ''pregnancy'' \<notin> set conditions"
    by (auto simp: example_env_def)
  have h2: "requested_policy comfort_request = JStr ''comfort''" by code_simp
  have h3: "capitalize ''comfort'' \<in> set valid_policies" by code_simp
  have h4: "driving_policy (the_session (store (fresh_world True)) (ctx_session_id comfort_request))
              = JStr ''Sport''"
    by (simp add: fresh_world_def the_session_def get_session_def new_session_def)
  have e1: "lower ''Sport'' \<noteq> lower ''comfort''" by code_simp
  have e2: "capitalize ''comfort'' = ''Comfort''" by code_simp
  have e3: "sent_to_unity (fresh_world True) = []" "unity_connected (fresh_world True)"
    by (simp_all add: fresh_world_def sent_to_unity_def)
  have e4: "ctx_session_id comfort_request = ''s1''" by (simp add: comfort_request_def)
  from change_driving_policy_frame [OF h1 h2 h3 h4]
  obtain r w' where
    "change_driving_policy_execute example_env comfort_request (fresh_world True) = Inr (r, w')"
    "commands r = []" "ui_options r = []"
    "\<forall>sid. the_session (store w') sid = the_session (store (fresh_world True)) sid"
    "message r = MsgPolicyRequested ''Comfort''"
    "sent_to_unity w' = [Cambio_policy ''s1'' ''Comfort'']"
    using e1 e2 e3 e4 by auto
  then show ?thesis using h4 e4 by auto
qed

text \<open>
  Of \<^verbatim>\<open>_process_side_effects\<close>: a command is not forwarded when the session has no
  active ride or the simulator is not connected; without an active ride the repository
  is not asked; one command asks the repository at most once, for its \<^verbatim>\<open>poi_id\<close>.
\<close>

lemma repo_emit:
  "repo_lookups (emit es w) =
     repo_lookups w @ concat (map (\<lambda>e. case e of Repo_lookup i \<Rightarrow> [i] | _ \<Rightarrow> []) es)"
  by (simp add: repo_lookups_def emit_def)

lemma repo_store [simp]: "repo_lookups (w\<lparr>store := st\<rparr>) = repo_lookups w"
  by (simp add: repo_lookups_def)

lemma reroute_dropped:
  assumes "\<not> is_ride_active (the_session (store w) sid) \<or> \<not> unity_connected w"
  shows "sent_to_unity (process_command env sid cmd w) = sent_to_unity w"
  using assms
  by (auto simp: process_command_def store_is_ride_active_def recover_id_unity_def split_beta
      snd_get_session sent_emit Let_def split: sum.splits option.splits)

lemma reroute_without_ride_no_lookup:
  assumes "\<not> is_ride_active (the_session (store w) sid)"
  shows "repo_lookups (process_command env sid cmd w) = repo_lookups w"
  using assms
  by (auto simp: process_command_def store_is_ride_active_def split_beta
      snd_get_session repo_emit Let_def)

lemma reroute_one_lookup:
  "repo_lookups (process_command env sid cmd w) = repo_lookups w
   \<or> repo_lookups (process_command env sid cmd w)
       = repo_lookups w @ [pget (payload cmd) ''poi_id'']"
  by (auto simp: process_command_def store_is_ride_active_def recover_id_unity_def split_beta
      snd_get_session repo_emit Let_def split: sum.splits option.splits)

text \<open>
  C2. A \<^verbatim>\<open>REROUTE_TO\<close> command without \<^verbatim>\<open>id_unity\<close>, for a POI that the
  repository does not know, in a session with an active ride and with the simulator
  connected: \<^verbatim>\<open>_process_side_effects\<close> looks the POI up once, logs the error that the
  id could not be recovered, and then sends the change of destination to the simulator
  with the id \<^verbatim>\<open>None\<close>; the command is not dropped.
\<close>

theorem reroute_forwarded_without_id_unity:
  "trace (process_side_effects example_env [reroute_without_id] ''s1'' ride_world)
     = [Log WARNING ''[MAIN] REROUTE_TO missing id_unity. Attempting fetch...'',
        Repo_lookup (JStr ''POI_404''),
        Log ERROR ''[MAIN] Failed to recover id_unity'',
        Sent_to_unity
          (Cambio_destinazione ''s1'' (JStr ''POI_404'') (JStr ''Bar Fantasma'') JNull)]"
  by code_simp

section \<open>The pipeline: the lists of a session\<close>

lemma with_store_fields [simp]:
  "store (with_store f w) = f (store w)"
  "unity_connected (with_store f w) = unity_connected w"
  "trace (with_store f w) = trace w"
  by (simp_all add: with_store_def)

lemma the_session_update_same:
  "the_session (update_session st sid us) sid = fold apply_update us (the_session st sid)"
  by (simp add: update_session_def split_beta snd_get_session)

lemma the_session_clear_pending:
  "the_session (clear_pending_question st sid) sid = (the_session st sid)\<lparr>pending_question := None\<rparr>"
  by (simp add: clear_pending_question_def split_beta snd_get_session)

lemma poi_options_store:
  "poi_options env ids w = (r, w') \<Longrightarrow> store w' = store w"
proof (induction ids arbitrary: w r w')
  case Nil
  then show ?case by simp
next
  case (Cons i ids)
  show ?case
  proof (cases "get_poi_by_id env (JStr i)")
    case (Inl e)
    then show ?thesis using Cons.prems by (auto simp: Let_def)
  next
    case (Inr found)
    obtain r2 w2 where p: "poi_options env ids (emit [Repo_lookup (JStr i)] w) = (r2, w2)"
      by (cases "poi_options env ids (emit [Repo_lookup (JStr i)] w)")
    from Cons.IH [OF p] have "store w2 = store w" by simp
    then show ?thesis using Cons.prems Inr p
      by (auto simp: Let_def split: sum.splits)
  qed
qed

text \<open>
  C3. The two lists are not cleared together.  On a simple rejection
  \<^verbatim>\<open>handle_user_message\<close> answers that the request is dropped and clears
  \<^verbatim>\<open>last_poi_suggestions\<close>, and \<^verbatim>\<open>last_ui_options\<close> is left as it was.  In the
  stage of the selection among the suggested POIs, when the answer of the matching is
  \<^verbatim>\<open>cancel\<close>, the suggestions are cleared and \<^verbatim>\<open>last_ui_options\<close> is left as it
  was.
\<close>

theorem rejection_keeps_ui_options:
  "(is_simple_rejection (analyze_text (strip (msg_text msg)))
      \<longrightarrow> fst (handle_user_message env msg w) = Inr (respond (msg_session_id msg) MsgRejected [])
        \<and> last_poi_suggestions
            (the_session (store (snd (handle_user_message env msg w))) (msg_session_id msg)) = []
        \<and> last_ui_options
            (the_session (store (snd (handle_user_message env msg w))) (msg_session_id msg))
          = last_ui_options (the_session (store w) (msg_session_id msg)))
   \<and> (last_poi_suggestions (the_session (store w) sid) \<noteq> []
        \<and> poi_options env (last_poi_suggestions (the_session (store w) sid)) w = (Inr found, w1)
        \<and> match_option env text (found @ [cancel_option]) = (Inr match_result, prompts)
        \<and> action match_result = JStr ''cancel''
      \<longrightarrow> fst (poi_selection_stage env sid uid text w) = Inr (respond sid MsgCancelled [])
        \<and> last_poi_suggestions
            (the_session (store (snd (poi_selection_stage env sid uid text w))) sid) = []
        \<and> last_ui_options
            (the_session (store (snd (poi_selection_stage env sid uid text w))) sid)
          = last_ui_options (the_session (store w) sid))"
proof -
  have 1: "is_simple_rejection (analyze_text (strip (msg_text msg)))
      \<Longrightarrow> fst (handle_user_message env msg w) = Inr (respond (msg_session_id msg) MsgRejected [])
        \<and> last_poi_suggestions
            (the_session (store (snd (handle_user_message env msg w))) (msg_session_id msg)) = []
        \<and> last_ui_options
            (the_session (store (snd (handle_user_message env msg w))) (msg_session_id msg))
          = last_ui_options (the_session (store w) (msg_session_id msg))"
    by (simp add: handle_user_message_def Let_def the_session_clear_pending
        the_session_update_same)
  have 2: "last_poi_suggestions (the_session (store w) sid) \<noteq> []
      \<Longrightarrow> poi_options env (last_poi_suggestions (the_session (store w) sid)) w = (Inr found, w1)
      \<Longrightarrow> match_option env text (found @ [cancel_option]) = (Inr match_result, prompts)
      \<Longrightarrow> action match_result = JStr ''cancel''
      \<Longrightarrow> fst (poi_selection_stage env sid uid text w) = Inr (respond sid MsgCancelled [])
        \<and> last_poi_suggestions
            (the_session (store (snd (poi_selection_stage env sid uid text w))) sid) = []
        \<and> last_ui_options
            (the_session (store (snd (poi_selection_stage env sid uid text w))) sid)
          = last_ui_options (the_session (store w) sid)"
    using poi_options_store [of env "last_poi_suggestions (the_session (store w) sid)" w "Inr found" w1]
    by (simp add: poi_selection_stage_def Let_def the_session_update_same)
  from 1 2 show ?thesis by blast
qed

text \<open>
  The message \<^verbatim>\<open>no grazie\<close> in a session with three active options and two suggested
  POIs: afterwards the suggestions are empty and the three options are still active.
\<close>

theorem rejection_keeps_ui_options_witness:
  "fst (handle_user_message example_env no_thanks stale_world) = Inr (respond ''s1'' MsgRejected [])
   \<and> last_poi_suggestions
       (the_session (store (snd (handle_user_message example_env no_thanks stale_world))) ''s1'') = []
   \<and> last_ui_options
       (the_session (store (snd (handle_user_message example_env no_thanks stale_world))) ''s1'')
     = [[(''id'', ''poi:POI_001''), (''label'', ''Bar Roma'')],
        [(''id'', ''poi:POI_002''), (''label'', ''Pizzeria Napoli'')],
        [(''id'', ''cancel''), (''label'', ''Annulla'')]]"
proof -
  have r: "is_simple_rejection (analyze_text (strip (msg_text no_thanks)))" by code_simp
  have s: "msg_session_id no_thanks = ''s1''" by (simp add: no_thanks_def)
  have o: "last_ui_options (the_session (store stale_world) ''s1'')
     = [[(''id'', ''poi:POI_001''), (''label'', ''Bar Roma'')],
        [(''id'', ''poi:POI_002''), (''label'', ''Pizzeria Napoli'')],
        [(''id'', ''cancel''), (''label'', ''Annulla'')]]"
    by (simp add: stale_world_def the_session_def get_session_def example_options_def)
  show ?thesis
    using rejection_keeps_ui_options [of no_thanks example_env stale_world, THEN conjunct1] r s o
    by simp
qed

text \<open>
  The stage of the matching with the active options, on the answer \<^verbatim>\<open>cancel\<close>, clears
  both lists before it hands over to \<^verbatim>\<open>handle_ui_action\<close>.
\<close>

lemma option_stage_clears_both:
  assumes "last_ui_options (the_session (store w) sid) \<noteq> []"
    "match_option env text (last_ui_options (the_session (store w) sid)) = (Inr match_result, prompts)"
    "action match_result = JStr ''cancel''"
  shows "option_stage env sid uid text w
          = handle_ui_action env sid (JStr ''cancel'')
              (emit [UI_action_call (JStr ''cancel'')]
                 (with_store (\<lambda>st. update_session st sid
                                [Set_last_ui_options [], Set_last_poi_suggestions []])
                    (emit (map LLM_call prompts) w)))"
    "last_ui_options (the_session (update_session (store w) sid
        [Set_last_ui_options [], Set_last_poi_suggestions []]) sid) = []"
    "last_poi_suggestions (the_session (update_session (store w) sid
        [Set_last_ui_options [], Set_last_poi_suggestions []]) sid) = []"
  using assms by (simp_all add: option_stage_def Let_def the_session_update_same)

end
